theory Spec2Isabelle
  imports Complex_Main "HOL-Library.Word"
begin

unbundle bit_operations_syntax

section \<open>Water-rocket telemetry link: command records, flight state, cadences\<close>

text \<open>
  The repository holds two firmwares for the ESP32 (a 32-bit little-endian target, where
  \<^verbatim>\<open>unsigned long\<close> has 32 bits): the flight unit (\<^verbatim>\<open>Foguete/src/main.cpp\<close> and its
  revision 1.1 with the command receiver and the SD log) and the ground unit
  (\<^verbatim>\<open>src/main.cpp\<close>). Globals become the fields of a state record, every call into a
  library (clock, ADC, sensors, SD card, ESP-NOW) takes its answer from an argument, and
  what the firmware sends to a library is appended to a trace kept in the state.
  \<^verbatim>\<open>float\<close> and \<^verbatim>\<open>double\<close> values are read as real numbers: the sensors' answers are
  finite, and rounding is not modelled. The sign of a zero, which a real number does not
  have, is kept beside the accelerometer's answers, where \<^verbatim>\<open>atan2\<close> reads it.
\<close>

type_synonym byte = "8 word"
type_synonym u16 = "16 word"
type_synonym u32 = "32 word"

subsection \<open>Structs.h: the command record\<close>

datatype CommandType = NO_COMMAND | START_FLIGHT | END_FLIGHT | ABORT_MISSION | RESET_SYSTEM

text \<open>The enumerators' values, as the \<^verbatim>\<open>int\<close>-sized object the compiler stores.\<close>

fun enum_value :: "CommandType \<Rightarrow> u32" where
  "enum_value NO_COMMAND = 0"
| "enum_value START_FLIGHT = 1"
| "enum_value END_FLIGHT = 2"
| "enum_value ABORT_MISSION = 3"
| "enum_value RESET_SYSTEM = 4"

text \<open>
  \<^verbatim>\<open>struct ControlCommand\<close> is declared before any \<^verbatim>\<open>#pragma pack\<close>, so it has the
  natural layout: \<^verbatim>\<open>type\<close> at offsets 0..3 (an enumeration is stored as an \<^verbatim>\<open>int\<close>),
  \<^verbatim>\<open>timestamp\<close> at 4..7, \<^verbatim>\<open>sequenceId\<close> at 8..9, \<^verbatim>\<open>checksum\<close> at 10, and one byte
  of tail padding at 11 that rounds the size up to the alignment of \<^verbatim>\<open>uint32_t\<close>. The
  members take 11 bytes, and the header asserts the size with the padding:
  \<^verbatim>\<open>static_assert(sizeof(ControlCommand) == 12)\<close>. The receiver fills the object with
  \<^verbatim>\<open>memcpy\<close> from the radio buffer, so \<^verbatim>\<open>type\<close> may hold any 32-bit value and the
  padding byte is whatever arrived; the record keeps it as \<open>tail_padding\<close>.
  \<^verbatim>\<open>struct LaunchCommand\<close> of the ground unit has the same members in the same order.
\<close>

record ControlCommand =
  type :: u32
  timestamp :: u32
  sequenceId :: u16
  checksum :: byte
  tail_padding :: byte

type_synonym LaunchCommand = ControlCommand

definition sizeof_ControlCommand :: nat where
  "sizeof_ControlCommand = 12"

definition sizeof_checksum :: nat where
  "sizeof_checksum = 1"

definition le_bytes32 :: "u32 \<Rightarrow> byte list" where
  "le_bytes32 w = [ucast w, ucast (drop_bit 8 w), ucast (drop_bit 16 w), ucast (drop_bit 24 w)]"

definition le_bytes16 :: "u16 \<Rightarrow> byte list" where
  "le_bytes16 w = [ucast w, ucast (drop_bit 8 w)]"

definition le_word32 :: "byte list \<Rightarrow> u32" where
  "le_word32 bs = foldr (\<lambda>b w. ucast b OR push_bit 8 w) (take 4 bs) 0"

definition le_word16 :: "byte list \<Rightarrow> u16" where
  "le_word16 bs = foldr (\<lambda>b w. ucast b OR push_bit 8 w) (take 2 bs) 0"

text \<open>The object representation: what \<^verbatim>\<open>reinterpret_cast<const uint8_t*>(this)\<close> reads.\<close>

definition object_bytes :: "ControlCommand \<Rightarrow> byte list" where
  "object_bytes c =
     le_bytes32 (type c) @ le_bytes32 (timestamp c) @ le_bytes16 (sequenceId c) @
     [checksum c, tail_padding c]"

text \<open>\<^verbatim>\<open>memcpy(&command, incomingData, sizeof(ControlCommand))\<close> on a 12-byte buffer.\<close>

definition memcpy_ControlCommand :: "byte list \<Rightarrow> ControlCommand" where
  "memcpy_ControlCommand bs =
     \<lparr>type = le_word32 bs, timestamp = le_word32 (drop 4 bs), sequenceId = le_word16 (drop 8 bs),
      checksum = bs ! 10, tail_padding = bs ! 11\<rparr>"

text \<open>
  \<^verbatim>\<open>ControlCommand::calculateChecksum\<close>: the loop adds \<^verbatim>\<open>data[i]\<close> into a
  \<^verbatim>\<open>uint8_t\<close> for \<^verbatim>\<open>i < sizeof(ControlCommand) - sizeof(checksum)\<close>.
\<close>

definition calculateChecksum :: "ControlCommand \<Rightarrow> byte" where
  "calculateChecksum c =
     foldl (\<lambda>sum b. sum + b) 0 (take (sizeof_ControlCommand - sizeof_checksum) (object_bytes c))"

definition isValid :: "ControlCommand \<Rightarrow> bool" where
  "isValid c = (checksum c = calculateChecksum c)"

text \<open>
  \<^verbatim>\<open>LaunchCommand::calculateChecksum\<close> of the ground unit: the sum is formed in 32-bit
  unsigned arithmetic and cut to \<^verbatim>\<open>uint8_t\<close> by the initialisation of \<^verbatim>\<open>sum\<close>.
\<close>

definition calculateChecksum_Launch :: "LaunchCommand \<Rightarrow> byte" where
  "calculateChecksum_Launch c =
     ucast (ucast (ucast (type c) :: byte) +
            (timestamp c AND 0xFF) + (drop_bit 8 (timestamp c) AND 0xFF) +
            (drop_bit 16 (timestamp c) AND 0xFF) + (drop_bit 24 (timestamp c) AND 0xFF) +
            ucast (sequenceId c AND 0xFF) + ucast (drop_bit 8 (sequenceId c) AND 0xFF) :: u32)"

text \<open>
  The command that \<^verbatim>\<open>sendFlightCommand\<close> prepares: the type asked for, \<^verbatim>\<open>millis()\<close>,
  the next sequence number, and the checksum over them. The padding byte of the local
  variable is not initialised; it is an argument.
\<close>

definition sendFlightCommand_cmd :: "CommandType \<Rightarrow> u32 \<Rightarrow> u16 \<Rightarrow> byte \<Rightarrow> LaunchCommand" where
  "sendFlightCommand_cmd ty millis nextSequenceId pad =
     (let cmd = \<lparr>type = enum_value ty, timestamp = millis, sequenceId = nextSequenceId,
                 checksum = 0, tail_padding = pad\<rparr>
      in cmd\<lparr>checksum := calculateChecksum_Launch cmd\<rparr>)"

text \<open>
  The checksum in the specification's words: the 8-bit sum of the command-kind byte, the
  four timestamp bytes and the two sequence bytes.
\<close>

definition spec_checksum :: "ControlCommand \<Rightarrow> byte" where
  "spec_checksum c =
     ucast (type c) + foldl (\<lambda>sum b. sum + b) 0 (le_bytes32 (timestamp c) @ le_bytes16 (sequenceId c))"

subsection \<open>Structs.h: the telemetry record\<close>

text \<open>
  Where two structs (or a struct and a global) share a member name, the later one
  carries a suffix: \<open>altitude_gps\<close>, \<open>timestamp_ms\<close>, and \<open>pitch_deg\<close>, \<open>roll_deg\<close> for
  the globals \<^verbatim>\<open>pitch\<close> and \<^verbatim>\<open>roll\<close>.
\<close>

record AcelerometerData =
  accX :: real
  accY :: real
  accZ :: real
  gyroX :: real
  gyroY :: real
  gyroZ :: real
  temp :: real
  pitch :: real
  roll :: real

record AltimeterData =
  pressure :: real
  altitude :: real

record VoltageData =
  voltage_base :: real
  voltage_rocket :: real

record GPSData =
  latitude :: real
  longitude :: real
  altitude_gps :: real
  day :: int
  month :: int
  year :: int
  hour :: int
  minute :: int
  second :: int

record SensorData =
  acelerometro :: AcelerometerData
  altimetro :: AltimeterData
  tensao :: VoltageData
  gps :: GPSData
  timestamp_ms :: real

text \<open>\<^verbatim>\<open>SensorData sensorData = {};\<close> every member is zero.\<close>

definition zero_SensorData :: SensorData where
  "zero_SensorData =
     \<lparr>acelerometro = \<lparr>accX = 0, accY = 0, accZ = 0, gyroX = 0, gyroY = 0, gyroZ = 0,
                       temp = 0, pitch = 0, roll = 0\<rparr>,
      altimetro = \<lparr>pressure = 0, altitude = 0\<rparr>,
      tensao = \<lparr>voltage_base = 0, voltage_rocket = 0\<rparr>,
      gps = \<lparr>latitude = 0, longitude = 0, altitude_gps = 0, day = 0, month = 0, year = 0,
              hour = 0, minute = 0, second = 0\<rparr>,
      timestamp_ms = 0\<rparr>"

text \<open>
  The structs are packed (\<^verbatim>\<open>#pragma pack(push, 1)\<close>), \<^verbatim>\<open>float\<close> and \<^verbatim>\<open>int\<close> have
  four bytes: nine, two, two, three plus six, and one member.
\<close>

definition sizeof_SensorData :: nat where
  "sizeof_SensorData = 9 * 4 + 2 * 4 + 2 * 4 + (3 * 4 + 6 * 4) + 4"

subsection \<open>The flight unit: state, library answers, traces\<close>

datatype FlightState = GROUND_STATE | PRE_FLIGHT | FLIGHT_ACTIVE | POST_FLIGHT

datatype esp_err =
  ESP_OK | ESP_ERR_ESPNOW_NOT_INIT | ESP_ERR_ESPNOW_ARG | ESP_ERR_ESPNOW_NO_MEM | ESP_ERR_other int

text \<open>The lines the flight unit prints on \<^verbatim>\<open>Serial\<close>, one constructor for each text.\<close>

datatype message =
  SdNotReady
| FlightLogStarted string
| FlightLogCreateError
| FlightFinished nat
| UnknownCommand
| PeerAddFailedForTransmission
| SentOk
| EspNowNotInitialised
| InvalidArgument
| OutOfMemory
| UnknownError int
| EspNowInitFailed
| PeerAddFailed
| MacAddress
| EspNowInitError
| SystemInitialised

text \<open>The lines written to a file of the SD card.\<close>

datatype sd_line = CsvHeader | EndOfFlight | DurationLine nat

text \<open>The calls into the radio library, in the order the firmware makes them.\<close>

datatype radio_call =
  WiFiModeSta
| EspNowInit
| RegisterSendCb
| IsPeerExist "byte list"
| AddPeer "byte list" byte bool
| Send "byte list" SensorData

record rocket =
  currentFlightState :: FlightState
  currentLogFilename :: string
  sdReady :: bool
  isFlightLogging :: bool
  flightStartTime :: u32
  lastSensorReadTime :: u32
  lastTransmissionTime :: u32
  pitch_deg :: real
  roll_deg :: real
  lastUpdateTime :: u32
  sensorData :: SensorData
  serial :: "message list"
  sd_card :: "(string \<times> sd_line) list"
  radio :: "radio_call list"

text \<open>
  The globals as their initialisers leave them. \<^verbatim>\<open>setup\<close> assigns none of them: the
  block that would set \<^verbatim>\<open>sdReady\<close> from \<^verbatim>\<open>SD.begin\<close> is commented out.
\<close>

definition power_on :: rocket where
  "power_on =
     \<lparr>currentFlightState = GROUND_STATE, currentLogFilename = [], sdReady = False,
      isFlightLogging = False, flightStartTime = 0, lastSensorReadTime = 0,
      lastTransmissionTime = 0, pitch_deg = 0, roll_deg = 0, lastUpdateTime = 0,
      sensorData = zero_SensorData, serial = [], sd_card = [], radio = []\<rparr>"

text \<open>What the clock and the SD card answer during one receive callback.\<close>

record cmd_env =
  millis_name :: u32
  millis_now :: u32
  sd_open_ok :: bool

text \<open>
  What the ADC, the MPU6050, the BMP280 and the GPS answer during one sampling call. Each
  acceleration comes with the sign bit of the \<^verbatim>\<open>float\<close>, which tells \<open>-0.0\<close> from
  \<open>+0.0\<close> when the value is zero (for any other value the sign is that of the value, and
  nothing reads the bit).
\<close>

record readings =
  leituraADC :: int
  a_x :: real
  a_y :: real
  a_z :: real
  a_x_signbit :: bool
  a_y_signbit :: bool
  a_z_signbit :: bool
  g_x :: real
  g_y :: real
  g_z :: real
  temperature :: real
  readPressure :: real
  readAltitude :: real
  gps_lat :: real
  gps_lng :: real
  gps_meters :: real
  gps_year :: int
  gps_month :: int
  gps_day :: int
  gps_hour :: int
  gps_minute :: int
  gps_second :: int

text \<open>What the radio library answers during one transmission call.\<close>

record radio_env =
  peer_exist :: bool
  add_peer_result :: esp_err
  send_result :: esp_err
  init_result :: esp_err
  readd_peer_result :: esp_err

text \<open>
  \<^verbatim>\<open>ESP.restart()\<close> resets the chip: the call does not return, and the run continues
  with \<^verbatim>\<open>setup\<close>. A function that can reach it returns an outcome.
\<close>

datatype outcome = Running rocket | Rebooting rocket

fun state_of :: "outcome \<Rightarrow> rocket" where
  "state_of (Running s) = s"
| "state_of (Rebooting s) = s"

subsection \<open>Constants of the flight unit\<close>

definition SENSOR_READ_INTERVAL :: u32 where
  "SENSOR_READ_INTERVAL = 100"

definition TRANSMISSION_INTERVAL :: u32 where
  "TRANSMISSION_INTERVAL = 500"

definition COMPLEMENTARY_FILTER_ALPHA :: real where
  "COMPLEMENTARY_FILTER_ALPHA = 98 / 100"

definition VREF :: real where
  "VREF = 33 / 10"

definition ADC_MULTIPLIER :: real where
  "ADC_MULTIPLIER = 2"

definition PI :: real where
  "PI = pi"

definition RAD_TO_DEG :: real where
  "RAD_TO_DEG = 180 / pi"

definition broadcastAddress :: "byte list" where
  "broadcastAddress = [0x2B, 0xBC, 0xBB, 0x4B, 0xE4, 0xBD]"

definition CHANNEL :: byte where
  "CHANNEL = 1"

text \<open>
  The library function \<^verbatim>\<open>atan2(y, x)\<close> on finite operands: the angle of the point
  \<open>(x, y)\<close>. Each operand is a value with its sign bit, read only where the value is zero
  (C, Annex F): \<^verbatim>\<open>atan2(+-0, x)\<close> is \<open>+-0\<close> for \<open>x > 0\<close> and \<open>+-pi\<close> for \<open>x < 0\<close>,
  \<^verbatim>\<open>atan2(+-0, +0)\<close> is \<open>+-0\<close>, \<^verbatim>\<open>atan2(+-0, -0)\<close> is \<open>+-pi\<close>, and
  \<^verbatim>\<open>atan2(y, +-0)\<close> is \<open>pi / 2\<close> for \<open>y > 0\<close> and \<open>- pi / 2\<close> for \<open>y < 0\<close>.
\<close>

definition atan2 :: "real \<times> bool \<Rightarrow> real \<times> bool \<Rightarrow> real" where
  "atan2 yy xx =
     (let y = fst yy; x = fst xx
      in if 0 < x then arctan (y / x)
         else if x < 0 then
           (if 0 < y \<or> (y = 0 \<and> \<not> snd yy) then arctan (y / x) + pi else arctan (y / x) - pi)
         else if 0 < y then pi / 2
         else if y < 0 then - (pi / 2)
         else if snd xx then (if snd yy then - pi else pi)
         else 0)"

subsection \<open>The flight log (revision 1.1 of the flight unit)\<close>

text \<open>\<^verbatim>\<open>snprintf(buffer, 32, "/flight_log_%06lu.csv", millis() / 1000)\<close>.\<close>

fun dec_digits :: "nat \<Rightarrow> string" where
  "dec_digits n =
     (if n < 10 then [char_of (48 + n)] else dec_digits (n div 10) @ [char_of (48 + n mod 10)])"

definition generateLogFilename :: "u32 \<Rightarrow> string" where
  "generateLogFilename millis =
     (let ds = dec_digits (unat millis div 1000)
      in ''/flight_log_'' @ replicate (6 - length ds) (CHR ''0'') @ ds @ ''.csv'')"

definition startNewFlightLog :: "cmd_env \<Rightarrow> rocket \<Rightarrow> rocket" where
  "startNewFlightLog e s =
     (if \<not> sdReady s then s\<lparr>serial := serial s @ [SdNotReady]\<rparr>
      else
        let name = generateLogFilename (millis_name e);
            s1 = s\<lparr>currentLogFilename := name\<rparr>
        in if sd_open_ok e
           then s1\<lparr>sd_card := sd_card s1 @ [(name, CsvHeader)],
                   currentFlightState := FLIGHT_ACTIVE,
                   isFlightLogging := True,
                   flightStartTime := millis_now e,
                   serial := serial s1 @ [FlightLogStarted name]\<rparr>
           else s1\<lparr>serial := serial s1 @ [FlightLogCreateError]\<rparr>)"

definition endFlightLog :: "cmd_env \<Rightarrow> rocket \<Rightarrow> rocket" where
  "endFlightLog e s =
     (if \<not> isFlightLogging s then s
      else
        let s1 = s\<lparr>currentFlightState := POST_FLIGHT, isFlightLogging := False\<rparr>;
            flightDuration = unat (millis_now e - flightStartTime s1) div 1000;
            s2 = (if sd_open_ok e
                  then s1\<lparr>sd_card := sd_card s1 @
                           [(currentLogFilename s1, EndOfFlight),
                            (currentLogFilename s1, DurationLine flightDuration)]\<rparr>
                  else s1)
        in s2\<lparr>serial := serial s2 @ [FlightFinished flightDuration],
               currentLogFilename := []\<rparr>)"

text \<open>
  The receive callback of the flight unit. \<open>incomingData\<close> is the buffer the radio
  hands over and \<^verbatim>\<open>len\<close> its length.
\<close>

definition onEspNowReceive :: "cmd_env \<Rightarrow> byte list \<Rightarrow> rocket \<Rightarrow> rocket" where
  "onEspNowReceive e incomingData s =
     (if length incomingData = sizeof_ControlCommand then
        let command = memcpy_ControlCommand incomingData
        in if type command = enum_value START_FLIGHT then
             (if currentFlightState s = GROUND_STATE then startNewFlightLog e s else s)
           else if type command = enum_value END_FLIGHT then
             (if currentFlightState s = FLIGHT_ACTIVE then endFlightLog e s else s)
           else s\<lparr>serial := serial s @ [UnknownCommand]\<rparr>
      else s)"

text \<open>A logging session begins with the header line of a new file.\<close>

definition sessions_begun :: "rocket \<Rightarrow> nat" where
  "sessions_begun s = length (filter (\<lambda>w. snd w = CsvHeader) (sd_card s))"

text \<open>
  What holds of the flight log as the firmware powers on: no SD card, on the ground, not
  logging.
\<close>

definition grounded :: "rocket \<Rightarrow> bool" where
  "grounded s = (\<not> sdReady s \<and> currentFlightState s = GROUND_STATE \<and> \<not> isFlightLogging s)"

text \<open>The two flags of a running flight log are set and cleared together.\<close>

definition logging_consistent :: "rocket \<Rightarrow> bool" where
  "logging_consistent s = (isFlightLogging s = (currentFlightState s = FLIGHT_ACTIVE))"

subsection \<open>Sampling and transmission (\<^verbatim>\<open>Foguete/src/main.cpp\<close>)\<close>

text \<open>The assignment \<^verbatim>\<open>sensorData.tensao.voltage_rocket = v\<close>.\<close>

definition assign_voltage_rocket :: "real \<Rightarrow> rocket \<Rightarrow> rocket" where
  "assign_voltage_rocket v s =
     s\<lparr>sensorData := (sensorData s)\<lparr>tensao := (tensao (sensorData s))\<lparr>voltage_rocket := v\<rparr>\<rparr>\<rparr>"

definition tensaoReal :: "readings \<Rightarrow> real" where
  "tensaoReal r = (real_of_int (leituraADC r) / 4095) * VREF * ADC_MULTIPLIER"

text \<open>
  The static angles. The square root of a sum of squares is positive or \<open>+0.0\<close>, so its
  sign bit is clear; the negation \<^verbatim>\<open>-a.acceleration.x\<close> flips the sign bit of the
  reading, also when the reading is zero.
\<close>

definition accPitch :: "readings \<Rightarrow> real" where
  "accPitch r =
     atan2 (a_y r, a_y_signbit r) (sqrt ((a_x r)\<^sup>2 + (a_z r)\<^sup>2), False) * 180 / PI"

definition accRoll :: "readings \<Rightarrow> real" where
  "accRoll r = atan2 (- a_x r, \<not> a_x_signbit r) (a_z r, a_z_signbit r) * 180 / PI"

text \<open>
  \<^verbatim>\<open>updateSensorData\<close>, with \<open>currentTime\<close> the answer of \<^verbatim>\<open>millis()\<close>. The static
  local \<^verbatim>\<open>lastUpdateTime\<close> is a field of the state. The aggregate assigned to
  \<^verbatim>\<open>sensorData.gps\<close> lists year, month, day against the members day, month, year.
  Revision 1.1 is the same function with constants in place of the GPS answers.
\<close>

definition updateSensorData :: "readings \<Rightarrow> u32 \<Rightarrow> rocket \<Rightarrow> rocket" where
  "updateSensorData r currentTime s =
     (let s1 = assign_voltage_rocket (tensaoReal r) s
      in if currentTime - lastSensorReadTime s1 < SENSOR_READ_INTERVAL then s1
         else
           let s2 = s1\<lparr>lastSensorReadTime := currentTime\<rparr>
           in if lastUpdateTime s2 = 0 then s2\<lparr>lastUpdateTime := currentTime\<rparr>
              else
                let dt = real (unat (currentTime - lastUpdateTime s2)) / 1000;
                    s3 = s2\<lparr>lastUpdateTime := currentTime\<rparr>;
                    p = COMPLEMENTARY_FILTER_ALPHA * (pitch_deg s3 + g_x r * dt * RAD_TO_DEG) +
                        (1 - COMPLEMENTARY_FILTER_ALPHA) * accPitch r;
                    q = COMPLEMENTARY_FILTER_ALPHA * (roll_deg s3 + g_y r * dt * RAD_TO_DEG) +
                        (1 - COMPLEMENTARY_FILTER_ALPHA) * accRoll r
                in s3\<lparr>pitch_deg := p, roll_deg := q,
                      sensorData :=
                        \<lparr>acelerometro =
                           \<lparr>accX = a_x r, accY = a_y r, accZ = a_z r,
                            gyroX = g_x r, gyroY = g_y r, gyroZ = g_z r,
                            temp = temperature r, pitch = p, roll = q\<rparr>,
                         altimetro = \<lparr>pressure = readPressure r / 100, altitude = readAltitude r\<rparr>,
                         tensao = tensao (sensorData s3),
                         gps =
                           \<lparr>latitude = gps_lat r, longitude = gps_lng r, altitude_gps = gps_meters r,
                            day = gps_year r, month = gps_month r, year = gps_day r,
                            hour = gps_hour r, minute = gps_minute r, second = gps_second r\<rparr>,
                         timestamp_ms = real (unat currentTime)\<rparr>\<rparr>)"

definition setupEspNow :: "esp_err \<Rightarrow> esp_err \<Rightarrow> rocket \<Rightarrow> outcome" where
  "setupEspNow init_res add_res s =
     (let s1 = s\<lparr>radio := radio s @ [WiFiModeSta, EspNowInit]\<rparr>
      in if init_res \<noteq> ESP_OK then Rebooting (s1\<lparr>serial := serial s1 @ [EspNowInitFailed]\<rparr>)
         else
           let s2 = s1\<lparr>radio := radio s1 @ [RegisterSendCb, AddPeer broadcastAddress CHANNEL False]\<rparr>
           in if add_res \<noteq> ESP_OK then Running (s2\<lparr>serial := serial s2 @ [PeerAddFailed]\<rparr>)
              else Running s2)"

definition handleCommunicationErrors :: "radio_env \<Rightarrow> esp_err \<Rightarrow> rocket \<Rightarrow> outcome" where
  "handleCommunicationErrors e result s =
     (case result of
        ESP_OK \<Rightarrow> Running (s\<lparr>serial := serial s @ [SentOk]\<rparr>)
      | ESP_ERR_ESPNOW_NOT_INIT \<Rightarrow>
          setupEspNow (init_result e) (readd_peer_result e)
            (s\<lparr>serial := serial s @ [EspNowNotInitialised]\<rparr>)
      | ESP_ERR_ESPNOW_ARG \<Rightarrow> Running (s\<lparr>serial := serial s @ [InvalidArgument]\<rparr>)
      | ESP_ERR_ESPNOW_NO_MEM \<Rightarrow> Running (s\<lparr>serial := serial s @ [OutOfMemory]\<rparr>)
      | ESP_ERR_other code \<Rightarrow> Running (s\<lparr>serial := serial s @ [UnknownError code]\<rparr>))"

definition transmitData :: "radio_env \<Rightarrow> u32 \<Rightarrow> rocket \<Rightarrow> outcome" where
  "transmitData e currentTime s =
     (if currentTime - lastTransmissionTime s < TRANSMISSION_INTERVAL then Running s
      else
        let s1 = s\<lparr>lastTransmissionTime := currentTime,
                   radio := radio s @ [IsPeerExist broadcastAddress]\<rparr>;
            send = (\<lambda>s'. handleCommunicationErrors e (send_result e)
                      (s'\<lparr>radio := radio s' @ [Send broadcastAddress (sensorData s')]\<rparr>))
        in if \<not> peer_exist e then
             let s2 = s1\<lparr>radio := radio s1 @ [AddPeer broadcastAddress CHANNEL False]\<rparr>
             in if add_peer_result e \<noteq> ESP_OK
                then Running (s2\<lparr>serial := serial s2 @ [PeerAddFailedForTransmission]\<rparr>)
                else send s2
           else send s1)"

text \<open>Successive sampling calls, each with the answers it receives.\<close>

fun samples :: "(readings \<times> u32) list \<Rightarrow> rocket \<Rightarrow> rocket" where
  "samples [] s = s"
| "samples ((r, t) # rest) s = samples rest (updateSensorData r t s)"

text \<open>
  The calls a transmission makes up to and including \<^verbatim>\<open>esp_now_send\<close>, when the peer
  is known or can be added.
\<close>

definition radio_until_send :: "radio_env \<Rightarrow> rocket \<Rightarrow> radio_call list" where
  "radio_until_send e s =
     radio s @ [IsPeerExist broadcastAddress] @
     (if peer_exist e then [] else [AddPeer broadcastAddress CHANNEL False]) @
     [Send broadcastAddress (sensorData s)]"

text \<open>
  \<^verbatim>\<open>setup\<close> of \<^verbatim>\<open>Foguete/src/main.cpp\<close>, from the globals' initial values (revision 1.1
  also registers the receive callback). \<open>init1\<close> is the answer of its own
  \<^verbatim>\<open>esp_now_init()\<close>; the other two go to \<^verbatim>\<open>setupEspNow\<close>. When a sensor
  does not answer, \<^verbatim>\<open>setupSensors\<close> stays in \<^verbatim>\<open>while(1) delay(10);\<close> and \<^verbatim>\<open>setup\<close>
  never returns: the value is \<open>None\<close>. The BMP280 is tried at 0x76 and then at 0x77.
  The serial port is taken to be up (the wait \<^verbatim>\<open>while (!Serial)\<close> ends at once).
\<close>

definition initBMP280 :: "bool \<Rightarrow> bool \<Rightarrow> bool" where
  "initBMP280 begin_76 begin_77 = (if begin_76 then True else if begin_77 then True else False)"

definition setupSensors :: "bool \<Rightarrow> bool \<Rightarrow> bool \<Rightarrow> rocket \<Rightarrow> rocket option" where
  "setupSensors mpu_begin begin_76 begin_77 s =
     (if \<not> mpu_begin then None
      else if \<not> initBMP280 begin_76 begin_77 then None
      else Some s)"

definition setup_foguete :: "esp_err \<Rightarrow> esp_err \<Rightarrow> esp_err \<Rightarrow> bool \<Rightarrow> bool \<Rightarrow> bool \<Rightarrow> outcome option" where
  "setup_foguete init1 init2 add_res mpu_begin begin_76 begin_77 =
     (let s1 = power_on\<lparr>radio := [WiFiModeSta, EspNowInit], serial := [MacAddress]\<rparr>
      in if init1 \<noteq> ESP_OK then Some (Rebooting (s1\<lparr>serial := serial s1 @ [EspNowInitError]\<rparr>))
         else
           case setupEspNow init2 add_res s1 of
             Rebooting s2 \<Rightarrow> Some (Rebooting s2)
           | Running s2 \<Rightarrow>
               (case setupSensors mpu_begin begin_76 begin_77 s2 of
                  None \<Rightarrow> None
                | Some s3 \<Rightarrow> Some (Running (s3\<lparr>serial := serial s3 @ [SystemInitialised]\<rparr>))))"

text \<open>Answers of the sensors used in the examples: a unit at rest with its z axis up.\<close>

definition bench_readings :: "int \<Rightarrow> real \<Rightarrow> readings" where
  "bench_readings adc gx =
     \<lparr>leituraADC = adc, a_x = 0, a_y = 0, a_z = 1,
      a_x_signbit = False, a_y_signbit = False, a_z_signbit = False,
      g_x = gx, g_y = 0, g_z = 0,
      temperature = 0, readPressure = 0, readAltitude = 0,
      gps_lat = 0, gps_lng = 0, gps_meters = 0,
      gps_year = 0, gps_month = 0, gps_day = 0, gps_hour = 0, gps_minute = 0, gps_second = 0\<rparr>"

text \<open>
  The same unit turned upside down and still; the argument is the sign bit of its x
  reading, which is zero.
\<close>

definition inverted_readings :: "bool \<Rightarrow> readings" where
  "inverted_readings sx = (bench_readings 0 0)\<lparr>a_z := - 1, a_z_signbit := True, a_x_signbit := sx\<rparr>"

subsection \<open>The ground unit: the receive callback (\<^verbatim>\<open>src/main.cpp\<close>)\<close>

datatype base_message = InvalidSize nat nat | DataReceived "byte list"

record base =
  dadosRecebidos :: "byte list"
  dadosAtualizados :: bool
  serial_base :: "base_message list"

text \<open>
  \<^verbatim>\<open>dadosRecebidos\<close> is kept as the bytes of the object: the callback fills it with
  \<^verbatim>\<open>memcpy\<close>. \<open>src_addr\<close> is the sender's address, printed in the log line.
\<close>

definition onEspNowReceive_base :: "byte list \<Rightarrow> byte list \<Rightarrow> base \<Rightarrow> base" where
  "onEspNowReceive_base src_addr incomingData g =
     (if length incomingData \<noteq> sizeof_SensorData
      then g\<lparr>serial_base := serial_base g @ [InvalidSize sizeof_SensorData (length incomingData)]\<rparr>
      else g\<lparr>dadosRecebidos := take sizeof_SensorData incomingData,
              dadosAtualizados := True,
              serial_base := serial_base g @ [DataReceived src_addr]\<rparr>)"

lemmas command_defs =
  isValid_def calculateChecksum_def object_bytes_def le_bytes32_def le_bytes16_def
  sizeof_ControlCommand_def sizeof_checksum_def spec_checksum_def

lemmas receive_defs =
  onEspNowReceive_def startNewFlightLog_def endFlightLog_def
  memcpy_ControlCommand_def le_word32_def le_word16_def sizeof_ControlCommand_def

subsection \<open>The checksum of a command record\<close>

text \<open>
  The loop of \<^verbatim>\<open>ControlCommand::calculateChecksum\<close> runs over offsets 0..10, and
  offset 10 is the checksum member itself: the bound subtracts one byte from a size that
  counts a byte of tail padding. The comparison in \<^verbatim>\<open>isValid\<close> therefore holds exactly
  when the ten bytes before the checksum add up to zero, whatever the checksum is.
\<close>

lemma isValid_iff_prefix_sum_zero:
  "isValid c \<longleftrightarrow>
     foldl (\<lambda>sum b. sum + b) 0
       (le_bytes32 (type c) @ le_bytes32 (timestamp c) @ le_bytes16 (sequenceId c)) = 0"
  by (simp add: command_defs)

lemma calculateChecksum_includes_checksum:
  "calculateChecksum c =
     foldl (\<lambda>sum b. sum + b) 0
       (le_bytes32 (type c) @ le_bytes32 (timestamp c) @ le_bytes16 (sequenceId c)) + checksum c"
  by (simp add: command_defs)

lemma isValid_ignores_checksum: "isValid (c\<lparr>checksum := x\<rparr>) = isValid c"
  by (simp add: isValid_iff_prefix_sum_zero)

text \<open>The ground unit computes the checksum of the specification.\<close>

lemma take_bit_8_add_wider:
  fixes x y :: int
  assumes "8 \<le> n"
  shows "take_bit 8 (take_bit n x + take_bit n y) = take_bit 8 (x + y)"
proof -
  have "take_bit 8 (take_bit n x + take_bit n y)
        = take_bit 8 (take_bit 8 (take_bit n x) + take_bit 8 (take_bit n y))"
    by (simp only: take_bit_add)
  also have "\<dots> = take_bit 8 (take_bit 8 x + take_bit 8 y)"
    using assms by (simp add: min_def)
  also have "\<dots> = take_bit 8 (x + y)"
    by (simp only: take_bit_add)
  finally show ?thesis .
qed

lemma ucast_down_add: "(ucast (x + y :: u32) :: byte) = ucast x + ucast y"
  by transfer (simp add: take_bit_8_add_wider)

lemma mask_byte32: "(w :: u32) AND 0xFF = ucast (ucast w :: byte)"
proof -
  have "(0xFF :: u32) = mask 8"
    by (simp add: mask_eq_exp_minus_1)
  then have "w AND 0xFF = take_bit 8 w"
    by (simp add: take_bit_eq_mask)
  also have "\<dots> = ucast (ucast w :: byte)"
    by (rule bit_word_eqI) (auto simp add: bit_simps)
  finally show ?thesis .
qed

lemma mask_byte16: "(w :: u16) AND 0xFF = ucast (ucast w :: byte)"
proof -
  have "(0xFF :: u16) = mask 8"
    by (simp add: mask_eq_exp_minus_1)
  then have "w AND 0xFF = take_bit 8 w"
    by (simp add: take_bit_eq_mask)
  also have "\<dots> = ucast (ucast w :: byte)"
    by (rule bit_word_eqI) (auto simp add: bit_simps)
  finally show ?thesis .
qed

lemma ucast_ucast_byte: "(ucast (ucast (b :: byte) :: u32) :: byte) = b"
  by (rule bit_word_eqI) (auto simp add: bit_simps)

lemma ucast_ucast_byte_16:
  "(ucast (ucast (ucast (ucast (w :: u16) :: byte) :: u16) :: u32) :: byte) = ucast w"
  by (rule bit_word_eqI) (auto simp add: bit_simps)

lemma calculateChecksum_Launch_is_spec: "calculateChecksum_Launch c = spec_checksum c"
  unfolding calculateChecksum_Launch_def spec_checksum_def le_bytes32_def le_bytes16_def
  by (simp add: mask_byte32 mask_byte16 ucast_down_add ucast_ucast_byte ucast_ucast_byte_16
      add.assoc)

text \<open>
  C2. The claim: \<^verbatim>\<open>isValid\<close> holds exactly when the checksum member equals the sum
  modulo 256 of the command-kind byte, the four timestamp bytes and the two sequence
  bytes. The code at the command that the ground unit sends for a launch at clock 0 with
  sequence number 0: its checksum member is 1, the sum of the bytes before it, yet
  \<^verbatim>\<open>calculateChecksum\<close> returns 2 (it adds the checksum member too) and \<^verbatim>\<open>isValid\<close>
  is false. In the other direction, a record of zeros with checksum 0x55 is accepted.
\<close>

theorem isValid_at_ground_unit_command:
  "checksum (sendFlightCommand_cmd START_FLIGHT 0 0 0) = 1 \<and>
   spec_checksum (sendFlightCommand_cmd START_FLIGHT 0 0 0) = 1 \<and>
   calculateChecksum (sendFlightCommand_cmd START_FLIGHT 0 0 0) = 2 \<and>
   \<not> isValid (sendFlightCommand_cmd START_FLIGHT 0 0 0) \<and>
   spec_checksum \<lparr>type = 0, timestamp = 0, sequenceId = 0, checksum = 0x55, tail_padding = 0\<rparr> = 0 \<and>
   isValid \<lparr>type = 0, timestamp = 0, sequenceId = 0, checksum = 0x55, tail_padding = 0\<rparr>"
  by (simp add: sendFlightCommand_cmd_def calculateChecksum_Launch_def command_defs)

subsection \<open>The receive callbacks\<close>

lemma generateLogFilename_0: "generateLogFilename 0 = ''/flight_log_000000.csv''"
  by code_simp

text \<open>
  C1. The claim: the flight unit validates the checksum of a 12-byte command record
  before it acts on the command kind, and discards a record that fails. The callback
  never calls \<^verbatim>\<open>isValid\<close>. The buffer below is a start-flight record whose checksum
  byte 0x99 is wrong both for \<^verbatim>\<open>isValid\<close> and for the sum of the bytes before it. As
  the firmware powers on, the callback enters \<^verbatim>\<open>startNewFlightLog\<close> for it (which
  prints that the SD card is not ready); with the SD card ready the flight state moves
  to \<^verbatim>\<open>FLIGHT_ACTIVE\<close> and a log file is begun.
\<close>

theorem onEspNowReceive_acts_without_validation:
  "\<not> isValid (memcpy_ControlCommand [1, 0, 0, 0, 0, 0, 0, 0, 0, 0, 0x99, 0]) \<and>
   checksum (memcpy_ControlCommand [1, 0, 0, 0, 0, 0, 0, 0, 0, 0, 0x99, 0]) \<noteq>
     spec_checksum (memcpy_ControlCommand [1, 0, 0, 0, 0, 0, 0, 0, 0, 0, 0x99, 0]) \<and>
   onEspNowReceive \<lparr>millis_name = 0, millis_now = 0, sd_open_ok = True\<rparr>
     [1, 0, 0, 0, 0, 0, 0, 0, 0, 0, 0x99, 0] power_on = power_on\<lparr>serial := [SdNotReady]\<rparr> \<and>
   onEspNowReceive \<lparr>millis_name = 0, millis_now = 0, sd_open_ok = True\<rparr>
     [1, 0, 0, 0, 0, 0, 0, 0, 0, 0, 0x99, 0] (power_on\<lparr>sdReady := True\<rparr>) =
     power_on\<lparr>sdReady := True, currentFlightState := FLIGHT_ACTIVE, isFlightLogging := True,
       currentLogFilename := ''/flight_log_000000.csv'',
       sd_card := [(''/flight_log_000000.csv'', CsvHeader)],
       serial := [FlightLogStarted ''/flight_log_000000.csv'']\<rparr>"
  by (simp add: receive_defs command_defs power_on_def Let_def generateLogFilename_0)

text \<open>
  C3. A buffer whose length differs from the size of the record is rejected: the ground
  unit leaves the stored telemetry record and the data-updated flag as they were (it
  prints a diagnostic), and the flight unit leaves its whole state, the flight state
  included, as it was.
\<close>

theorem receive_rejects_wrong_length:
  "(length incomingData \<noteq> sizeof_SensorData \<longrightarrow>
      dadosRecebidos (onEspNowReceive_base src_addr incomingData g) = dadosRecebidos g \<and>
      dadosAtualizados (onEspNowReceive_base src_addr incomingData g) = dadosAtualizados g) \<and>
   (length incomingData \<noteq> sizeof_ControlCommand \<longrightarrow> onEspNowReceive e incomingData s = s)"
  by (simp add: onEspNowReceive_base_def onEspNowReceive_def)

theorem receive_rejects_wrong_length_witness:
  "length ([] :: byte list) \<noteq> sizeof_SensorData \<and>
   length (replicate 91 (0 :: byte)) \<noteq> sizeof_SensorData \<and>
   length (replicate 93 (0 :: byte)) \<noteq> sizeof_SensorData \<and>
   dadosRecebidos (onEspNowReceive_base [] []
     \<lparr>dadosRecebidos = replicate 92 7, dadosAtualizados = False, serial_base = []\<rparr>) =
     replicate 92 7 \<and>
   dadosRecebidos (onEspNowReceive_base [] (replicate 91 0)
     \<lparr>dadosRecebidos = replicate 92 7, dadosAtualizados = False, serial_base = []\<rparr>) =
     replicate 92 7 \<and>
   dadosRecebidos (onEspNowReceive_base [] (replicate 93 0)
     \<lparr>dadosRecebidos = replicate 92 7, dadosAtualizados = False, serial_base = []\<rparr>) =
     replicate 92 7 \<and>
   \<not> dadosAtualizados (onEspNowReceive_base [] (replicate 93 0)
     \<lparr>dadosRecebidos = replicate 92 7, dadosAtualizados = False, serial_base = []\<rparr>) \<and>
   length ([] :: byte list) \<noteq> sizeof_ControlCommand \<and>
   length (replicate 11 (0 :: byte)) \<noteq> sizeof_ControlCommand \<and>
   length (replicate 13 (0 :: byte)) \<noteq> sizeof_ControlCommand \<and>
   onEspNowReceive \<lparr>millis_name = 0, millis_now = 0, sd_open_ok = True\<rparr> []
     (power_on\<lparr>sdReady := True\<rparr>) = power_on\<lparr>sdReady := True\<rparr> \<and>
   onEspNowReceive \<lparr>millis_name = 0, millis_now = 0, sd_open_ok = True\<rparr> (replicate 11 1)
     (power_on\<lparr>sdReady := True\<rparr>) = power_on\<lparr>sdReady := True\<rparr> \<and>
   onEspNowReceive \<lparr>millis_name = 0, millis_now = 0, sd_open_ok = True\<rparr> (replicate 13 1)
     (power_on\<lparr>sdReady := True\<rparr>) = power_on\<lparr>sdReady := True\<rparr>"
  using
    receive_rejects_wrong_length [of "[]" "[]"
      "\<lparr>dadosRecebidos = replicate 92 7, dadosAtualizados = False, serial_base = []\<rparr>"
      "\<lparr>millis_name = 0, millis_now = 0, sd_open_ok = True\<rparr>" "power_on\<lparr>sdReady := True\<rparr>"]
    receive_rejects_wrong_length [of "replicate 91 0" "[]"
      "\<lparr>dadosRecebidos = replicate 92 7, dadosAtualizados = False, serial_base = []\<rparr>"]
    receive_rejects_wrong_length [of "replicate 93 0" "[]"
      "\<lparr>dadosRecebidos = replicate 92 7, dadosAtualizados = False, serial_base = []\<rparr>"]
    receive_rejects_wrong_length [of "replicate 11 1" _ _
      "\<lparr>millis_name = 0, millis_now = 0, sd_open_ok = True\<rparr>" "power_on\<lparr>sdReady := True\<rparr>"]
    receive_rejects_wrong_length [of "replicate 13 1" _ _
      "\<lparr>millis_name = 0, millis_now = 0, sd_open_ok = True\<rparr>" "power_on\<lparr>sdReady := True\<rparr>"]
  by (simp add: sizeof_SensorData_def sizeof_ControlCommand_def)

text \<open>
  C4. The claim: every validated start-flight command received in \<^verbatim>\<open>GROUND_STATE\<close>
  moves the flight state to \<^verbatim>\<open>FLIGHT_ACTIVE\<close>, begins a logging session and records the
  start time. The command below is a start-flight record that \<^verbatim>\<open>isValid\<close> accepts and
  whose checksum is the sum of the bytes before it; received as the firmware powers on
  (\<^verbatim>\<open>sdReady\<close> is false), it leaves the state in \<^verbatim>\<open>GROUND_STATE\<close> with no file begun.
\<close>

theorem start_flight_needs_sd_card:
  "isValid (memcpy_ControlCommand [1, 0, 0, 0, 0xFF, 0, 0, 0, 0, 0, 0, 0]) \<and>
   checksum (memcpy_ControlCommand [1, 0, 0, 0, 0xFF, 0, 0, 0, 0, 0, 0, 0]) =
     spec_checksum (memcpy_ControlCommand [1, 0, 0, 0, 0xFF, 0, 0, 0, 0, 0, 0, 0]) \<and>
   type (memcpy_ControlCommand [1, 0, 0, 0, 0xFF, 0, 0, 0, 0, 0, 0, 0]) = enum_value START_FLIGHT \<and>
   currentFlightState power_on = GROUND_STATE \<and>
   onEspNowReceive \<lparr>millis_name = 255, millis_now = 255, sd_open_ok = True\<rparr>
     [1, 0, 0, 0, 0xFF, 0, 0, 0, 0, 0, 0, 0] power_on = power_on\<lparr>serial := [SdNotReady]\<rparr>"
  by (simp add: receive_defs command_defs power_on_def)

text \<open>
  C4, as the code has it: a start-flight record received in \<^verbatim>\<open>GROUND_STATE\<close> moves the
  state to \<^verbatim>\<open>FLIGHT_ACTIVE\<close>, begins a log file with the header line and records
  \<^verbatim>\<open>millis()\<close> as the start time when \<^verbatim>\<open>sdReady\<close> is set and the file opens;
  otherwise the flight state stays \<^verbatim>\<open>GROUND_STATE\<close>, no session begins and no start time
  is recorded. This holds of every 12-byte start-flight record, and so of every
  validated one.
\<close>

theorem start_flight_from_ground:
  assumes "length incomingData = sizeof_ControlCommand"
    and "type (memcpy_ControlCommand incomingData) = enum_value START_FLIGHT"
    and "currentFlightState s = GROUND_STATE"
  shows "(sdReady s \<and> sd_open_ok e \<longrightarrow>
           currentFlightState (onEspNowReceive e incomingData s) = FLIGHT_ACTIVE \<and>
           isFlightLogging (onEspNowReceive e incomingData s) \<and>
           flightStartTime (onEspNowReceive e incomingData s) = millis_now e \<and>
           currentLogFilename (onEspNowReceive e incomingData s) =
             generateLogFilename (millis_name e) \<and>
           sd_card (onEspNowReceive e incomingData s) =
             sd_card s @ [(generateLogFilename (millis_name e), CsvHeader)] \<and>
           sessions_begun (onEspNowReceive e incomingData s) = sessions_begun s + 1) \<and>
         (\<not> (sdReady s \<and> sd_open_ok e) \<longrightarrow>
           currentFlightState (onEspNowReceive e incomingData s) = GROUND_STATE \<and>
           isFlightLogging (onEspNowReceive e incomingData s) = isFlightLogging s \<and>
           flightStartTime (onEspNowReceive e incomingData s) = flightStartTime s \<and>
           sd_card (onEspNowReceive e incomingData s) = sd_card s)"
  using assms
  by (auto simp add: onEspNowReceive_def startNewFlightLog_def Let_def sessions_begun_def)

theorem start_flight_from_ground_witness:
  "length [1, 0, 0, 0, 0xFF, 0, 0, 0, 0, 0, 0, 0 :: byte] = sizeof_ControlCommand \<and>
   type (memcpy_ControlCommand [1, 0, 0, 0, 0xFF, 0, 0, 0, 0, 0, 0, 0]) = enum_value START_FLIGHT \<and>
   isValid (memcpy_ControlCommand [1, 0, 0, 0, 0xFF, 0, 0, 0, 0, 0, 0, 0]) \<and>
   currentFlightState (power_on\<lparr>sdReady := True\<rparr>) = GROUND_STATE \<and>
   sdReady (power_on\<lparr>sdReady := True\<rparr>) \<and>
   currentFlightState (onEspNowReceive \<lparr>millis_name = 255, millis_now = 256, sd_open_ok = True\<rparr>
     [1, 0, 0, 0, 0xFF, 0, 0, 0, 0, 0, 0, 0] (power_on\<lparr>sdReady := True\<rparr>)) = FLIGHT_ACTIVE \<and>
   isFlightLogging (onEspNowReceive \<lparr>millis_name = 255, millis_now = 256, sd_open_ok = True\<rparr>
     [1, 0, 0, 0, 0xFF, 0, 0, 0, 0, 0, 0, 0] (power_on\<lparr>sdReady := True\<rparr>)) \<and>
   flightStartTime (onEspNowReceive \<lparr>millis_name = 255, millis_now = 256, sd_open_ok = True\<rparr>
     [1, 0, 0, 0, 0xFF, 0, 0, 0, 0, 0, 0, 0] (power_on\<lparr>sdReady := True\<rparr>)) = 256 \<and>
   sessions_begun (onEspNowReceive \<lparr>millis_name = 255, millis_now = 256, sd_open_ok = True\<rparr>
     [1, 0, 0, 0, 0xFF, 0, 0, 0, 0, 0, 0, 0] (power_on\<lparr>sdReady := True\<rparr>)) = 1 \<and>
   currentFlightState (onEspNowReceive \<lparr>millis_name = 255, millis_now = 256, sd_open_ok = False\<rparr>
     [1, 0, 0, 0, 0xFF, 0, 0, 0, 0, 0, 0, 0] (power_on\<lparr>sdReady := True\<rparr>)) = GROUND_STATE"
proof -
  have len: "length [1, 0, 0, 0, 0xFF, 0, 0, 0, 0, 0, 0, 0 :: byte] = sizeof_ControlCommand"
    by (simp add: sizeof_ControlCommand_def)
  have ty: "type (memcpy_ControlCommand [1, 0, 0, 0, 0xFF, 0, 0, 0, 0, 0, 0, 0]) =
      enum_value START_FLIGHT"
    by (simp add: memcpy_ControlCommand_def le_word32_def)
  have valid: "isValid (memcpy_ControlCommand [1, 0, 0, 0, 0xFF, 0, 0, 0, 0, 0, 0, 0])"
    by (simp add: memcpy_ControlCommand_def le_word32_def le_word16_def command_defs)
  have ground: "currentFlightState (power_on\<lparr>sdReady := True\<rparr>) = GROUND_STATE"
    by (simp add: power_on_def)
  have zero: "sessions_begun (power_on\<lparr>sdReady := True\<rparr>) = 0"
    by (simp add: power_on_def sessions_begun_def)
  show ?thesis
    using len ty valid ground zero
      start_flight_from_ground [OF len ty ground,
        of "\<lparr>millis_name = 255, millis_now = 256, sd_open_ok = True\<rparr>"]
      start_flight_from_ground [OF len ty ground,
        of "\<lparr>millis_name = 255, millis_now = 256, sd_open_ok = False\<rparr>"]
    by simp
qed

subsection \<open>The flight state machine\<close>

text \<open>
  \<^verbatim>\<open>isFlightLogging\<close> and \<^verbatim>\<open>FLIGHT_ACTIVE\<close> go together: they do at power-on, and every
  function of the firmware keeps it so.
\<close>

lemma logging_consistent_power_on: "logging_consistent power_on"
  by (simp add: logging_consistent_def power_on_def)

lemma logging_consistent_onEspNowReceive:
  "logging_consistent s \<Longrightarrow> logging_consistent (onEspNowReceive e incomingData s)"
  by (auto simp add: logging_consistent_def onEspNowReceive_def startNewFlightLog_def
      endFlightLog_def Let_def)

lemma logging_consistent_updateSensorData:
  "logging_consistent (updateSensorData r currentTime s) = logging_consistent s"
  by (simp add: logging_consistent_def updateSensorData_def assign_voltage_rocket_def Let_def)

lemma logging_consistent_transmitData:
  "logging_consistent (state_of (transmitData e currentTime s)) = logging_consistent s"
  by (simp add: logging_consistent_def transmitData_def handleCommunicationErrors_def
      setupEspNow_def Let_def split: esp_err.splits)

text \<open>
  Revision 1.1 never assigns \<^verbatim>\<open>sdReady\<close>, so the state it powers on with is kept by
  every callback and every pass of the loop: the flight state stays \<^verbatim>\<open>GROUND_STATE\<close>
  whatever is received. The theorems below about \<^verbatim>\<open>FLIGHT_ACTIVE\<close> are about the
  callback as a function of the globals, with \<^verbatim>\<open>sdReady\<close> set as the disabled
  initialisation of the SD card would set it.
\<close>

lemma grounded_power_on: "grounded power_on"
  by (simp add: grounded_def power_on_def)

lemma grounded_onEspNowReceive: "grounded s \<Longrightarrow> grounded (onEspNowReceive e incomingData s)"
  by (simp add: grounded_def onEspNowReceive_def startNewFlightLog_def Let_def)

lemma grounded_updateSensorData: "grounded (updateSensorData r currentTime s) = grounded s"
  by (simp add: grounded_def updateSensorData_def assign_voltage_rocket_def Let_def)

lemma grounded_transmitData: "grounded (state_of (transmitData e currentTime s)) = grounded s"
  by (simp add: grounded_def transmitData_def handleCommunicationErrors_def
      setupEspNow_def Let_def split: esp_err.splits)

text \<open>
  C7. The claim: two consecutive validated start-flight commands from \<^verbatim>\<open>GROUND_STATE\<close>
  move the state once and begin one logging session. Received as the firmware powers on
  (\<^verbatim>\<open>sdReady\<close> is false), the two valid start-flight records below leave the state in
  \<^verbatim>\<open>GROUND_STATE\<close> and begin no session: each is answered with the SD-not-ready line.
\<close>

theorem two_starts_without_sd_card:
  "isValid (memcpy_ControlCommand [1, 0, 0, 0, 0xFF, 0, 0, 0, 0, 0, 0, 0]) \<and>
   type (memcpy_ControlCommand [1, 0, 0, 0, 0xFF, 0, 0, 0, 0, 0, 0, 0]) = enum_value START_FLIGHT \<and>
   currentFlightState power_on = GROUND_STATE \<and>
   onEspNowReceive \<lparr>millis_name = 300, millis_now = 300, sd_open_ok = True\<rparr>
     [1, 0, 0, 0, 0xFF, 0, 0, 0, 0, 0, 0, 0]
     (onEspNowReceive \<lparr>millis_name = 255, millis_now = 255, sd_open_ok = True\<rparr>
        [1, 0, 0, 0, 0xFF, 0, 0, 0, 0, 0, 0, 0] power_on) =
     power_on\<lparr>serial := [SdNotReady, SdNotReady]\<rparr> \<and>
   sessions_begun (power_on\<lparr>serial := [SdNotReady, SdNotReady]\<rparr>) = 0"
  by (simp add: receive_defs command_defs power_on_def sessions_begun_def)

text \<open>
  C7, as the code has it. Of two consecutive start-flight records received from
  \<^verbatim>\<open>GROUND_STATE\<close>, at most one begins a logging session; when the first finds the SD
  card ready and its file opens, it moves the state to \<^verbatim>\<open>FLIGHT_ACTIVE\<close> and begins one
  session, and the second changes nothing. An end-flight record received in a state
  other than \<^verbatim>\<open>FLIGHT_ACTIVE\<close> changes nothing.
\<close>

theorem start_twice_end_early:
  assumes "length d1 = sizeof_ControlCommand"
    and "type (memcpy_ControlCommand d1) = enum_value START_FLIGHT"
    and "length d2 = sizeof_ControlCommand"
    and "type (memcpy_ControlCommand d2) = enum_value START_FLIGHT"
    and "length d3 = sizeof_ControlCommand"
    and "type (memcpy_ControlCommand d3) = enum_value END_FLIGHT"
    and "currentFlightState s = GROUND_STATE"
  shows "sessions_begun (onEspNowReceive e2 d2 (onEspNowReceive e1 d1 s)) \<le> sessions_begun s + 1 \<and>
    (sdReady s \<and> sd_open_ok e1 \<longrightarrow>
       currentFlightState (onEspNowReceive e1 d1 s) = FLIGHT_ACTIVE \<and>
       sessions_begun (onEspNowReceive e1 d1 s) = sessions_begun s + 1 \<and>
       onEspNowReceive e2 d2 (onEspNowReceive e1 d1 s) = onEspNowReceive e1 d1 s) \<and>
    (currentFlightState s' \<noteq> FLIGHT_ACTIVE \<longrightarrow> onEspNowReceive e3 d3 s' = s')"
  using assms
  by (auto simp add: onEspNowReceive_def startNewFlightLog_def Let_def sessions_begun_def)

theorem start_twice_end_early_witness:
  "length [1, 0, 0, 0, 0xFF, 0, 0, 0, 0, 0, 0, 0 :: byte] = sizeof_ControlCommand \<and>
   type (memcpy_ControlCommand [1, 0, 0, 0, 0xFF, 0, 0, 0, 0, 0, 0, 0]) = enum_value START_FLIGHT \<and>
   length [2, 0, 0, 0, 0xFE, 0, 0, 0, 0, 0, 0, 0 :: byte] = sizeof_ControlCommand \<and>
   type (memcpy_ControlCommand [2, 0, 0, 0, 0xFE, 0, 0, 0, 0, 0, 0, 0]) = enum_value END_FLIGHT \<and>
   isValid (memcpy_ControlCommand [1, 0, 0, 0, 0xFF, 0, 0, 0, 0, 0, 0, 0]) \<and>
   isValid (memcpy_ControlCommand [2, 0, 0, 0, 0xFE, 0, 0, 0, 0, 0, 0, 0]) \<and>
   currentFlightState (power_on\<lparr>sdReady := True\<rparr>) = GROUND_STATE \<and>
   sdReady (power_on\<lparr>sdReady := True\<rparr>) \<and>
   currentFlightState
     (onEspNowReceive \<lparr>millis_name = 0, millis_now = 0, sd_open_ok = True\<rparr>
        [1, 0, 0, 0, 0xFF, 0, 0, 0, 0, 0, 0, 0] (power_on\<lparr>sdReady := True\<rparr>)) = FLIGHT_ACTIVE \<and>
   sessions_begun
     (onEspNowReceive \<lparr>millis_name = 9000, millis_now = 9000, sd_open_ok = True\<rparr>
        [1, 0, 0, 0, 0xFF, 0, 0, 0, 0, 0, 0, 0]
        (onEspNowReceive \<lparr>millis_name = 0, millis_now = 0, sd_open_ok = True\<rparr>
           [1, 0, 0, 0, 0xFF, 0, 0, 0, 0, 0, 0, 0] (power_on\<lparr>sdReady := True\<rparr>))) = 1 \<and>
   onEspNowReceive \<lparr>millis_name = 9000, millis_now = 9000, sd_open_ok = True\<rparr>
     [1, 0, 0, 0, 0xFF, 0, 0, 0, 0, 0, 0, 0]
     (onEspNowReceive \<lparr>millis_name = 0, millis_now = 0, sd_open_ok = True\<rparr>
        [1, 0, 0, 0, 0xFF, 0, 0, 0, 0, 0, 0, 0] (power_on\<lparr>sdReady := True\<rparr>)) =
     onEspNowReceive \<lparr>millis_name = 0, millis_now = 0, sd_open_ok = True\<rparr>
       [1, 0, 0, 0, 0xFF, 0, 0, 0, 0, 0, 0, 0] (power_on\<lparr>sdReady := True\<rparr>) \<and>
   currentFlightState (power_on\<lparr>currentFlightState := POST_FLIGHT\<rparr>) \<noteq> FLIGHT_ACTIVE \<and>
   onEspNowReceive \<lparr>millis_name = 0, millis_now = 0, sd_open_ok = True\<rparr>
     [2, 0, 0, 0, 0xFE, 0, 0, 0, 0, 0, 0, 0] (power_on\<lparr>currentFlightState := POST_FLIGHT\<rparr>) =
     power_on\<lparr>currentFlightState := POST_FLIGHT\<rparr>"
proof -
  have len1: "length [1, 0, 0, 0, 0xFF, 0, 0, 0, 0, 0, 0, 0 :: byte] = sizeof_ControlCommand"
    and len3: "length [2, 0, 0, 0, 0xFE, 0, 0, 0, 0, 0, 0, 0 :: byte] = sizeof_ControlCommand"
    by (simp_all add: sizeof_ControlCommand_def)
  have ty1: "type (memcpy_ControlCommand [1, 0, 0, 0, 0xFF, 0, 0, 0, 0, 0, 0, 0]) =
      enum_value START_FLIGHT"
    and ty3: "type (memcpy_ControlCommand [2, 0, 0, 0, 0xFE, 0, 0, 0, 0, 0, 0, 0]) =
      enum_value END_FLIGHT"
    by (simp_all add: memcpy_ControlCommand_def le_word32_def)
  have valid: "isValid (memcpy_ControlCommand [1, 0, 0, 0, 0xFF, 0, 0, 0, 0, 0, 0, 0])"
    "isValid (memcpy_ControlCommand [2, 0, 0, 0, 0xFE, 0, 0, 0, 0, 0, 0, 0])"
    by (simp_all add: memcpy_ControlCommand_def le_word32_def le_word16_def command_defs)
  have ground: "currentFlightState (power_on\<lparr>sdReady := True\<rparr>) = GROUND_STATE"
    and ready: "sdReady (power_on\<lparr>sdReady := True\<rparr>)"
    and zero: "sessions_begun (power_on\<lparr>sdReady := True\<rparr>) = 0"
    and post: "currentFlightState (power_on\<lparr>currentFlightState := POST_FLIGHT\<rparr>) \<noteq> FLIGHT_ACTIVE"
    by (simp_all add: power_on_def sessions_begun_def)
  show ?thesis
    using len1 len3 ty1 ty3 valid ground ready zero post
      start_twice_end_early [OF len1 ty1 len1 ty1 len3 ty3 ground,
        of "\<lparr>millis_name = 9000, millis_now = 9000, sd_open_ok = True\<rparr>"
           "\<lparr>millis_name = 0, millis_now = 0, sd_open_ok = True\<rparr>"
           "power_on\<lparr>currentFlightState := POST_FLIGHT\<rparr>"
           "\<lparr>millis_name = 0, millis_now = 0, sd_open_ok = True\<rparr>"]
    by simp
qed

text \<open>
  C8. An end-flight record (every one, and so every validated one) received in
  \<^verbatim>\<open>FLIGHT_ACTIVE\<close> moves the state to
  \<^verbatim>\<open>POST_FLIGHT\<close>, ends the logging session (the flag is cleared, the file name reset,
  and the end marker and the duration written when the file opens) and reports the
  duration \<^verbatim>\<open>(millis() - flightStartTime) / 1000\<close>, the 32-bit difference in whole
  seconds. A flight begun at clock 0 and ended at clock 5000 reports 5 seconds.
\<close>

theorem end_flight_reports_duration:
  assumes "length incomingData = sizeof_ControlCommand"
    and "type (memcpy_ControlCommand incomingData) = enum_value END_FLIGHT"
    and "currentFlightState s = FLIGHT_ACTIVE"
    and "logging_consistent s"
  shows "currentFlightState (onEspNowReceive e incomingData s) = POST_FLIGHT \<and>
     \<not> isFlightLogging (onEspNowReceive e incomingData s) \<and>
     currentLogFilename (onEspNowReceive e incomingData s) = [] \<and>
     serial (onEspNowReceive e incomingData s) =
       serial s @ [FlightFinished (unat (millis_now e - flightStartTime s) div 1000)] \<and>
     sd_card (onEspNowReceive e incomingData s) =
       sd_card s @
       (if sd_open_ok e
        then [(currentLogFilename s, EndOfFlight),
              (currentLogFilename s,
               DurationLine (unat (millis_now e - flightStartTime s) div 1000))]
        else [])"
  using assms
  by (simp add: onEspNowReceive_def endFlightLog_def logging_consistent_def Let_def)

theorem end_flight_reports_duration_witness:
  "length [2, 0, 0, 0, 0xFE, 0, 0, 0, 0, 0, 0, 0 :: byte] = sizeof_ControlCommand \<and>
   type (memcpy_ControlCommand [2, 0, 0, 0, 0xFE, 0, 0, 0, 0, 0, 0, 0]) = enum_value END_FLIGHT \<and>
   isValid (memcpy_ControlCommand [2, 0, 0, 0, 0xFE, 0, 0, 0, 0, 0, 0, 0]) \<and>
   currentFlightState
     (onEspNowReceive \<lparr>millis_name = 0, millis_now = 0, sd_open_ok = True\<rparr>
        [1, 0, 0, 0, 0xFF, 0, 0, 0, 0, 0, 0, 0] (power_on\<lparr>sdReady := True\<rparr>)) = FLIGHT_ACTIVE \<and>
   flightStartTime
     (onEspNowReceive \<lparr>millis_name = 0, millis_now = 0, sd_open_ok = True\<rparr>
        [1, 0, 0, 0, 0xFF, 0, 0, 0, 0, 0, 0, 0] (power_on\<lparr>sdReady := True\<rparr>)) = 0 \<and>
   logging_consistent
     (onEspNowReceive \<lparr>millis_name = 0, millis_now = 0, sd_open_ok = True\<rparr>
        [1, 0, 0, 0, 0xFF, 0, 0, 0, 0, 0, 0, 0] (power_on\<lparr>sdReady := True\<rparr>)) \<and>
   currentFlightState
     (onEspNowReceive \<lparr>millis_name = 5000, millis_now = 5000, sd_open_ok = True\<rparr>
        [2, 0, 0, 0, 0xFE, 0, 0, 0, 0, 0, 0, 0]
        (onEspNowReceive \<lparr>millis_name = 0, millis_now = 0, sd_open_ok = True\<rparr>
           [1, 0, 0, 0, 0xFF, 0, 0, 0, 0, 0, 0, 0] (power_on\<lparr>sdReady := True\<rparr>))) = POST_FLIGHT \<and>
   serial
     (onEspNowReceive \<lparr>millis_name = 5000, millis_now = 5000, sd_open_ok = True\<rparr>
        [2, 0, 0, 0, 0xFE, 0, 0, 0, 0, 0, 0, 0]
        (onEspNowReceive \<lparr>millis_name = 0, millis_now = 0, sd_open_ok = True\<rparr>
           [1, 0, 0, 0, 0xFF, 0, 0, 0, 0, 0, 0, 0] (power_on\<lparr>sdReady := True\<rparr>))) =
     [FlightLogStarted ''/flight_log_000000.csv'', FlightFinished 5] \<and>
   sd_card
     (onEspNowReceive \<lparr>millis_name = 5000, millis_now = 5000, sd_open_ok = True\<rparr>
        [2, 0, 0, 0, 0xFE, 0, 0, 0, 0, 0, 0, 0]
        (onEspNowReceive \<lparr>millis_name = 0, millis_now = 0, sd_open_ok = True\<rparr>
           [1, 0, 0, 0, 0xFF, 0, 0, 0, 0, 0, 0, 0] (power_on\<lparr>sdReady := True\<rparr>))) =
     [(''/flight_log_000000.csv'', CsvHeader), (''/flight_log_000000.csv'', EndOfFlight),
      (''/flight_log_000000.csv'', DurationLine 5)]"
proof -
  let ?flying =
    "onEspNowReceive \<lparr>millis_name = 0, millis_now = 0, sd_open_ok = True\<rparr>
       [1, 0, 0, 0, 0xFF, 0, 0, 0, 0, 0, 0, 0] (power_on\<lparr>sdReady := True\<rparr>)"
  have flying: "?flying =
      power_on\<lparr>sdReady := True, currentFlightState := FLIGHT_ACTIVE, isFlightLogging := True,
        currentLogFilename := ''/flight_log_000000.csv'',
        sd_card := [(''/flight_log_000000.csv'', CsvHeader)],
        serial := [FlightLogStarted ''/flight_log_000000.csv'']\<rparr>"
    by (simp add: receive_defs power_on_def Let_def generateLogFilename_0)
  have len: "length [2, 0, 0, 0, 0xFE, 0, 0, 0, 0, 0, 0, 0 :: byte] = sizeof_ControlCommand"
    by (simp add: sizeof_ControlCommand_def)
  have ty: "type (memcpy_ControlCommand [2, 0, 0, 0, 0xFE, 0, 0, 0, 0, 0, 0, 0]) =
      enum_value END_FLIGHT"
    by (simp add: memcpy_ControlCommand_def le_word32_def)
  have valid: "isValid (memcpy_ControlCommand [2, 0, 0, 0, 0xFE, 0, 0, 0, 0, 0, 0, 0])"
    by (simp add: memcpy_ControlCommand_def le_word32_def le_word16_def command_defs)
  have active: "currentFlightState ?flying = FLIGHT_ACTIVE"
    and started: "flightStartTime ?flying = 0"
    and consistent: "logging_consistent ?flying"
    and before: "serial ?flying = [FlightLogStarted ''/flight_log_000000.csv'']"
      "sd_card ?flying = [(''/flight_log_000000.csv'', CsvHeader)]"
      "currentLogFilename ?flying = ''/flight_log_000000.csv''"
    unfolding flying by (simp_all add: power_on_def logging_consistent_def)
  show ?thesis
    using len ty valid active started consistent before
      end_flight_reports_duration [OF len ty active consistent,
        of "\<lparr>millis_name = 5000, millis_now = 5000, sd_open_ok = True\<rparr>"]
    by simp
qed

subsection \<open>Sampling and transmission cadences\<close>

lemmas sampling_defs =
  updateSensorData_def assign_voltage_rocket_def Let_def SENSOR_READ_INTERVAL_def
  tensaoReal_def VREF_def ADC_MULTIPLIER_def

lemmas transmit_defs =
  transmitData_def handleCommunicationErrors_def setupEspNow_def radio_until_send_def Let_def





subsection \<open>The complementary filter\<close>

lemma warm_up_tick:
  "updateSensorData (bench_readings 0 gx) 1000 power_on =
     power_on\<lparr>lastSensorReadTime := 1000, lastUpdateTime := 1000\<rparr>"
  by (simp add: sampling_defs power_on_def bench_readings_def zero_SensorData_def)

text \<open>
  With a positive second operand \<^verbatim>\<open>atan2\<close> is the arc tangent of the quotient and no
  sign of a zero matters; this is so for the static pitch whenever the unit measures
  any acceleration along x or z.
\<close>

lemma atan2_right_half_plane: "0 < x \<Longrightarrow> atan2 (y, sy) (x, sx) = arctan (y / x)"
  by (simp add: atan2_def)

lemma accPitch_no_signbit:
  "accPitch r =
     (if a_x r = 0 \<and> a_z r = 0
      then (if 0 < a_y r then 90 else if a_y r < 0 then - 90 else 0)
      else arctan (a_y r / sqrt ((a_x r)\<^sup>2 + (a_z r)\<^sup>2)) * 180 / pi)"
proof (cases "a_x r = 0 \<and> a_z r = 0")
  case True
  then show ?thesis
    by (simp add: accPitch_def atan2_def PI_def)
next
  case False
  then have "0 < (a_x r)\<^sup>2 + (a_z r)\<^sup>2"
    by (simp add: sum_power2_gt_zero_iff)
  then have "0 < sqrt ((a_x r)\<^sup>2 + (a_z r)\<^sup>2)"
    by simp
  with False show ?thesis
    by (simp add: accPitch_def atan2_right_half_plane PI_def)
qed

text \<open>
  The static roll of a unit turned upside down, with an x reading of zero: the code
  negates the reading, so a reading of \<open>+0.0\<close> gives \<^verbatim>\<open>atan2(-0.0, z)\<close>, which is
  \<open>- pi\<close>, and a reading of \<open>-0.0\<close> gives \<open>pi\<close>.
\<close>

lemma accRoll_inverted:
  "accRoll (inverted_readings False) = - 180" "accRoll (inverted_readings True) = 180"
  by (simp_all add: accRoll_def atan2_def inverted_readings_def bench_readings_def PI_def)

text \<open>
  The warm-up is recognised by \<^verbatim>\<open>lastUpdateTime == 0\<close>. A fused sample taken when the
  clock reads 0 (after the overflow of the 32-bit clock) stores 0 there, and the next
  sample past the gate is taken for a warm-up tick again: it leaves the angles alone.
\<close>

lemma sample_at_clock_zero_rearms_warm_up:
  assumes "SENSOR_READ_INTERVAL \<le> 0 - lastSensorReadTime s"
    and "SENSOR_READ_INTERVAL \<le> t"
  shows "lastUpdateTime (updateSensorData r 0 s) = 0 \<and>
    pitch_deg (updateSensorData r' t (updateSensorData r 0 s)) =
      pitch_deg (updateSensorData r 0 s) \<and>
    roll_deg (updateSensorData r' t (updateSensorData r 0 s)) =
      roll_deg (updateSensorData r 0 s) \<and>
    lastUpdateTime (updateSensorData r' t (updateSensorData r 0 s)) = t"
proof -
  from assms(1) have first: "lastUpdateTime (updateSensorData r 0 s) = 0"
    "lastSensorReadTime (updateSensorData r 0 s) = 0"
    by (simp_all add: updateSensorData_def assign_voltage_rocket_def Let_def not_less [symmetric])
  from assms(2) first show ?thesis
    by (simp add: updateSensorData_def [of r' t] assign_voltage_rocket_def Let_def
        not_less [symmetric])
qed

text \<open>
  Such a run: warm-up tick just before the overflow, a fused sample at clock 0, and a
  sample at 200 ms with gyro answer 1 that is skipped, so that the pitch stays 0.
\<close>

lemma run_across_clock_zero:
  "lastUpdateTime (updateSensorData (bench_readings 0 0) 0xFFFFFF00 power_on) = 0xFFFFFF00 \<and>
   lastUpdateTime (updateSensorData (bench_readings 0 0) 0
     (updateSensorData (bench_readings 0 0) 0xFFFFFF00 power_on)) = 0 \<and>
   pitch_deg (updateSensorData (bench_readings 0 1) 200
     (updateSensorData (bench_readings 0 0) 0
       (updateSensorData (bench_readings 0 0) 0xFFFFFF00 power_on))) = 0"
proof -
  have first: "updateSensorData (bench_readings 0 0) 0xFFFFFF00 power_on =
      power_on\<lparr>lastSensorReadTime := 0xFFFFFF00, lastUpdateTime := 0xFFFFFF00\<rparr>"
    by (simp add: sampling_defs power_on_def bench_readings_def zero_SensorData_def)
  have gate: "SENSOR_READ_INTERVAL \<le>
      0 - lastSensorReadTime (power_on\<lparr>lastSensorReadTime := 0xFFFFFF00, lastUpdateTime := 0xFFFFFF00\<rparr>)"
    and later: "SENSOR_READ_INTERVAL \<le> (200 :: u32)"
    by (simp_all add: SENSOR_READ_INTERVAL_def)
  have fused: "pitch_deg (updateSensorData (bench_readings 0 0) 0
      (power_on\<lparr>lastSensorReadTime := 0xFFFFFF00, lastUpdateTime := 0xFFFFFF00\<rparr>)) = 0"
    by (simp add: sampling_defs power_on_def bench_readings_def COMPLEMENTARY_FILTER_ALPHA_def
        RAD_TO_DEG_def PI_def accPitch_def atan2_def)
  from sample_at_clock_zero_rearms_warm_up [OF gate later, of "bench_readings 0 0" "bench_readings 0 1"]
    fused show ?thesis
    by (simp add: first)
qed

text \<open>
  C6. The claim: after the warm-up tick the fused pitch is
  \<open>0.98 * (previous + gx * dt) + 0.02 * atan2 (ay, sqrt (ax\<^sup>2 + az\<^sup>2))\<close> in degrees. The
  code multiplies the integrated gyro term by \<^verbatim>\<open>RAD_TO_DEG\<close>. After a warm-up tick at
  1000 ms, a sample at 2000 ms of a unit at rest with gyro answer 1 gives the pitch
  \<open>0.98 * (180 / pi)\<close>, not the 0.98 of the claim's formula.
\<close>

theorem fused_pitch_scales_gyro:
  "lastUpdateTime (updateSensorData (bench_readings 0 1) 1000 power_on) = 1000 \<and>
   pitch_deg (updateSensorData (bench_readings 0 1) 1000 power_on) = 0 \<and>
   real (unat ((2000 :: u32) -
     lastUpdateTime (updateSensorData (bench_readings 0 1) 1000 power_on))) / 1000 = 1 \<and>
   pitch_deg (updateSensorData (bench_readings 0 1) 2000
     (updateSensorData (bench_readings 0 1) 1000 power_on)) = 0.98 * (180 / pi) \<and>
   0.98 * (pitch_deg (updateSensorData (bench_readings 0 1) 1000 power_on) +
           g_x (bench_readings 0 1) * 1) +
   0.02 * (atan2 (a_y (bench_readings 0 1), a_y_signbit (bench_readings 0 1))
             (sqrt ((a_x (bench_readings 0 1))\<^sup>2 + (a_z (bench_readings 0 1))\<^sup>2), False) *
           180 / pi) = 0.98 \<and>
   pitch_deg (updateSensorData (bench_readings 0 1) 2000
     (updateSensorData (bench_readings 0 1) 1000 power_on)) \<noteq>
   0.98 * (pitch_deg (updateSensorData (bench_readings 0 1) 1000 power_on) +
           g_x (bench_readings 0 1) * 1) +
   0.02 * (atan2 (a_y (bench_readings 0 1), a_y_signbit (bench_readings 0 1))
             (sqrt ((a_x (bench_readings 0 1))\<^sup>2 + (a_z (bench_readings 0 1))\<^sup>2), False) *
           180 / pi)"
proof -
  let ?warm = "updateSensorData (bench_readings 0 1) 1000 power_on"
  have w: "?warm = power_on\<lparr>lastSensorReadTime := 1000, lastUpdateTime := 1000\<rparr>"
    by (rule warm_up_tick)
  have c1: "lastUpdateTime ?warm = 1000" and c2: "pitch_deg ?warm = 0"
    and c3: "real (unat ((2000 :: u32) - lastUpdateTime ?warm)) / 1000 = 1"
    unfolding w by (simp_all add: power_on_def)
  have c4: "pitch_deg (updateSensorData (bench_readings 0 1) 2000 ?warm) = 0.98 * (180 / pi)"
    unfolding w
    by (simp add: sampling_defs power_on_def bench_readings_def COMPLEMENTARY_FILTER_ALPHA_def
        RAD_TO_DEG_def PI_def accPitch_def atan2_def)
  have c5: "0.98 * (pitch_deg ?warm + g_x (bench_readings 0 1) * 1) +
      0.02 * (atan2 (a_y (bench_readings 0 1), a_y_signbit (bench_readings 0 1))
                (sqrt ((a_x (bench_readings 0 1))\<^sup>2 + (a_z (bench_readings 0 1))\<^sup>2), False) *
              180 / pi) =
      0.98"
    unfolding c2 by (simp add: bench_readings_def atan2_def)
  have "0.98 * pi < 0.98 * 180"
    using pi_less_4 by simp
  then have "(0.98 :: real) * (180 / pi) \<noteq> 0.98"
    using pi_gt_zero by (simp add: field_simps)
  then have c6: "pitch_deg (updateSensorData (bench_readings 0 1) 2000 ?warm) \<noteq>
      0.98 * (pitch_deg ?warm + g_x (bench_readings 0 1) * 1) +
      0.02 * (atan2 (a_y (bench_readings 0 1), a_y_signbit (bench_readings 0 1))
                (sqrt ((a_x (bench_readings 0 1))\<^sup>2 + (a_z (bench_readings 0 1))\<^sup>2), False) *
              180 / pi)"
    unfolding c4 c5 .
  from c1 c2 c3 c4 c5 c6 show ?thesis
    by (intro conjI)
qed

text \<open>
  C6, as the code has it. On every sampling call that passes the gate while
  \<^verbatim>\<open>lastUpdateTime\<close> is not 0 (the code's test for a previous fused sample: so it is from
  the warm-up tick on, for as long as no sample falls on the clock value 0), with \<open>dt\<close>
  the seconds since that sample, the gyro answers (in radians per second) are integrated
  in degrees:
  \<open>pitch = 0.98 * (pitch + gx * dt * (180 / pi)) + 0.02 * atan2 (ay, sqrt (ax\<^sup>2 + az\<^sup>2)) * 180 / pi\<close>
  and \<open>roll = 0.98 * (roll + gy * dt * (180 / pi)) + 0.02 * atan2 (- ax, az) * 180 / pi\<close>,
  where \<^verbatim>\<open>atan2\<close> is the library function with its rule for the sign of a zero (the
  negation of the x reading flips its sign bit) and the arithmetic is that of the real
  numbers; the telemetry record receives the two angles.
\<close>

theorem fused_angles:
  assumes "SENSOR_READ_INTERVAL \<le> currentTime - lastSensorReadTime s"
    and "lastUpdateTime s \<noteq> 0"
  shows "pitch_deg (updateSensorData r currentTime s) =
      0.98 * (pitch_deg s +
              g_x r * (real (unat (currentTime - lastUpdateTime s)) / 1000) * (180 / pi)) +
      0.02 * (atan2 (a_y r, a_y_signbit r) (sqrt ((a_x r)\<^sup>2 + (a_z r)\<^sup>2), False) * 180 / pi) \<and>
    roll_deg (updateSensorData r currentTime s) =
      0.98 * (roll_deg s +
              g_y r * (real (unat (currentTime - lastUpdateTime s)) / 1000) * (180 / pi)) +
      0.02 * (atan2 (- a_x r, \<not> a_x_signbit r) (a_z r, a_z_signbit r) * 180 / pi) \<and>
    pitch (acelerometro (sensorData (updateSensorData r currentTime s))) =
      pitch_deg (updateSensorData r currentTime s) \<and>
    roll (acelerometro (sensorData (updateSensorData r currentTime s))) =
      roll_deg (updateSensorData r currentTime s) \<and>
    lastUpdateTime (updateSensorData r currentTime s) = currentTime"
  using assms
  by (simp add: updateSensorData_def assign_voltage_rocket_def Let_def not_less [symmetric]
      COMPLEMENTARY_FILTER_ALPHA_def RAD_TO_DEG_def PI_def accPitch_def accRoll_def)

theorem fused_angles_witness:
  "SENSOR_READ_INTERVAL \<le> (2000 :: u32) -
     lastSensorReadTime (power_on\<lparr>lastSensorReadTime := 1000, lastUpdateTime := 1000\<rparr>) \<and>
   lastUpdateTime (power_on\<lparr>lastSensorReadTime := 1000, lastUpdateTime := 1000\<rparr>) \<noteq> 0 \<and>
   pitch_deg (updateSensorData (bench_readings 0 1) 2000
     (power_on\<lparr>lastSensorReadTime := 1000, lastUpdateTime := 1000\<rparr>)) = 0.98 * (180 / pi) \<and>
   roll_deg (updateSensorData (bench_readings 0 1) 2000
     (power_on\<lparr>lastSensorReadTime := 1000, lastUpdateTime := 1000\<rparr>)) = 0 \<and>
   lastUpdateTime (updateSensorData (bench_readings 0 1) 2000
     (power_on\<lparr>lastSensorReadTime := 1000, lastUpdateTime := 1000\<rparr>)) = 2000 \<and>
   pitch_deg (updateSensorData (inverted_readings False) 2000
     (power_on\<lparr>lastSensorReadTime := 1000, lastUpdateTime := 1000\<rparr>)) = 0 \<and>
   roll_deg (updateSensorData (inverted_readings False) 2000
     (power_on\<lparr>lastSensorReadTime := 1000, lastUpdateTime := 1000\<rparr>)) = - 3.6 \<and>
   roll_deg (updateSensorData (inverted_readings True) 2000
     (power_on\<lparr>lastSensorReadTime := 1000, lastUpdateTime := 1000\<rparr>)) = 3.6"
proof -
  let ?s = "power_on\<lparr>lastSensorReadTime := 1000, lastUpdateTime := 1000\<rparr>"
  have gate: "SENSOR_READ_INTERVAL \<le> (2000 :: u32) - lastSensorReadTime ?s"
    by (simp add: SENSOR_READ_INTERVAL_def)
  have warm: "lastUpdateTime ?s \<noteq> 0"
    by simp
  have angles: "pitch_deg ?s = 0" "roll_deg ?s = 0"
    by (simp_all add: power_on_def)
  have dt: "real (unat ((2000 :: u32) - lastUpdateTime ?s)) / 1000 = 1"
    by simp
  show ?thesis
    using gate warm fused_angles [OF gate warm, of "bench_readings 0 1"]
      fused_angles [OF gate warm, of "inverted_readings False"]
      fused_angles [OF gate warm, of "inverted_readings True"]
    by (simp add: angles dt inverted_readings_def bench_readings_def atan2_def)
qed

subsection \<open>The telemetry record before the second sample\<close>

lemma assign_voltage_rocket_twice [simp]:
  "assign_voltage_rocket v (assign_voltage_rocket w s) = assign_voltage_rocket v s"
  by (simp add: assign_voltage_rocket_def)

lemma assign_voltage_rocket_fields [simp]:
  "lastSensorReadTime (assign_voltage_rocket v s) = lastSensorReadTime s"
  "lastUpdateTime (assign_voltage_rocket v s) = lastUpdateTime s"
  "lastTransmissionTime (assign_voltage_rocket v s) = lastTransmissionTime s"
  "pitch_deg (assign_voltage_rocket v s) = pitch_deg s"
  "roll_deg (assign_voltage_rocket v s) = roll_deg s"
  "radio (assign_voltage_rocket v s) = radio s"
  "sensorData (assign_voltage_rocket v s) =
     (sensorData s)\<lparr>tensao := (tensao (sensorData s))\<lparr>voltage_rocket := v\<rparr>\<rparr>"
  by (simp_all add: assign_voltage_rocket_def)

text \<open>Calls that all come before the gate opens only refresh the voltage.\<close>

lemma samples_below_gate:
  assumes "\<forall>c \<in> set calls. snd c - lastSensorReadTime s < SENSOR_READ_INTERVAL"
  shows "samples calls s =
     (if calls = [] then s else assign_voltage_rocket (tensaoReal (fst (last calls))) s)"
  using assms
proof (induction calls arbitrary: s)
  case Nil
  then show ?case by simp
next
  case (Cons c calls)
  obtain r t where c: "c = (r, t)"
    by (cases c)
  from Cons.prems c have gate: "t - lastSensorReadTime s < SENSOR_READ_INTERVAL"
    by simp
  then have step: "updateSensorData r t s = assign_voltage_rocket (tensaoReal r) s"
    by (simp add: updateSensorData_def Let_def)
  from Cons.prems have
    "\<forall>c \<in> set calls. snd c - lastSensorReadTime (assign_voltage_rocket (tensaoReal r) s) <
       SENSOR_READ_INTERVAL"
    by simp
  from Cons.IH [OF this] show ?case
    by (simp add: c step)
qed

text \<open>The warm-up tick: the first call past the gate, while \<^verbatim>\<open>lastUpdateTime\<close> is 0.\<close>

lemma updateSensorData_warm_up:
  assumes "SENSOR_READ_INTERVAL \<le> currentTime - lastSensorReadTime s"
    and "lastUpdateTime s = 0"
  shows "updateSensorData r currentTime s =
     (assign_voltage_rocket (tensaoReal r) s)
       \<lparr>lastSensorReadTime := currentTime, lastUpdateTime := currentTime\<rparr>"
  using assms
  by (simp add: updateSensorData_def Let_def not_less [symmetric])

lemma transmitData_sends_record:
  assumes "TRANSMISSION_INTERVAL \<le> currentTime - lastTransmissionTime s"
    and "peer_exist e \<or> add_peer_result e = ESP_OK"
  shows "Send broadcastAddress (sensorData s) \<in> set (radio (state_of (transmitData e currentTime s)))"
  using assms
  by (auto simp add: transmit_defs not_less [symmetric] split: esp_err.splits)

text \<open>
  C10. From power-on, after any number of sampling calls made before the gate opens, the
  first call past the gate is the warm-up tick: it returns with every member of the
  telemetry record still zero except the flight-unit voltage, with both angles zero, and
  with \<^verbatim>\<open>lastUpdateTime\<close> set. Further calls before the next gate opening change the
  voltage only, and a transmission that passes its own gate then sends this record.
\<close>

theorem warm_up_record_is_zero:
  assumes "\<forall>c \<in> set before. snd c < SENSOR_READ_INTERVAL"
    and "SENSOR_READ_INTERVAL \<le> t"
    and "\<forall>c \<in> set after. snd c - t < SENSOR_READ_INTERVAL"
    and "TRANSMISSION_INTERVAL \<le> t_send"
    and "peer_exist e \<or> add_peer_result e = ESP_OK"
  shows "sensorData (updateSensorData r t (samples before power_on)) =
      zero_SensorData\<lparr>tensao := \<lparr>voltage_base = 0, voltage_rocket = tensaoReal r\<rparr>\<rparr> \<and>
    pitch_deg (updateSensorData r t (samples before power_on)) = 0 \<and>
    roll_deg (updateSensorData r t (samples before power_on)) = 0 \<and>
    lastUpdateTime (updateSensorData r t (samples before power_on)) = t \<and>
    Send broadcastAddress
      (zero_SensorData\<lparr>tensao :=
         \<lparr>voltage_base = 0, voltage_rocket = tensaoReal (fst (last ((r, t) # after)))\<rparr>\<rparr>)
      \<in> set (radio (state_of (transmitData e t_send
            (samples after (updateSensorData r t (samples before power_on))))))"
proof -
  let ?idle = "samples before power_on"
  let ?warm = "updateSensorData r t ?idle"
  let ?sent = "samples after ?warm"
  have last0: "lastSensorReadTime power_on = 0" "lastUpdateTime power_on = 0"
    "lastTransmissionTime power_on = 0" "pitch_deg power_on = 0" "roll_deg power_on = 0"
    and data0: "sensorData power_on = zero_SensorData"
    by (simp_all add: power_on_def)
  have idle: "?idle =
      (if before = [] then power_on
       else assign_voltage_rocket (tensaoReal (fst (last before))) power_on)"
    using assms(1) by (intro samples_below_gate) (simp add: last0)
  have idle_fields: "lastSensorReadTime ?idle = 0" "lastUpdateTime ?idle = 0"
    "lastTransmissionTime ?idle = 0" "pitch_deg ?idle = 0" "roll_deg ?idle = 0"
    by (simp_all add: idle last0)
  have warm: "?warm =
      (assign_voltage_rocket (tensaoReal r) ?idle)\<lparr>lastSensorReadTime := t, lastUpdateTime := t\<rparr>"
    using assms(2) by (intro updateSensorData_warm_up) (simp_all add: idle_fields)
  have warm_data: "sensorData ?warm =
      zero_SensorData\<lparr>tensao := \<lparr>voltage_base = 0, voltage_rocket = tensaoReal r\<rparr>\<rparr>"
    unfolding warm by (simp add: idle data0 zero_SensorData_def)
  have warm_fields: "pitch_deg ?warm = 0" "roll_deg ?warm = 0" "lastUpdateTime ?warm = t"
    "lastSensorReadTime ?warm = t" "lastTransmissionTime ?warm = 0"
    unfolding warm by (simp_all add: idle_fields)
  have sent: "?sent =
      (if after = [] then ?warm
       else assign_voltage_rocket (tensaoReal (fst (last after))) ?warm)"
    using assms(3) by (intro samples_below_gate) (simp add: warm_fields)
  have sent_data: "sensorData ?sent =
      zero_SensorData\<lparr>tensao :=
        \<lparr>voltage_base = 0, voltage_rocket = tensaoReal (fst (last ((r, t) # after)))\<rparr>\<rparr>"
    by (simp add: sent warm_data zero_SensorData_def)
  have "lastTransmissionTime ?sent = 0"
    by (simp add: sent warm_fields)
  with assms(4) have "TRANSMISSION_INTERVAL \<le> t_send - lastTransmissionTime ?sent"
    by simp
  from transmitData_sends_record [OF this assms(5)] sent_data
  have "Send broadcastAddress
      (zero_SensorData\<lparr>tensao :=
         \<lparr>voltage_base = 0, voltage_rocket = tensaoReal (fst (last ((r, t) # after)))\<rparr>\<rparr>)
      \<in> set (radio (state_of (transmitData e t_send ?sent)))"
    by simp
  with warm_data warm_fields show ?thesis
    by simp
qed

theorem warm_up_record_is_zero_witness:
  "sensorData (updateSensorData (bench_readings 4095 0) 1000
     (samples [(bench_readings 2000 0, 10)] power_on)) =
     zero_SensorData\<lparr>tensao := \<lparr>voltage_base = 0, voltage_rocket = 66 / 10\<rparr>\<rparr> \<and>
   lastUpdateTime (updateSensorData (bench_readings 4095 0) 1000
     (samples [(bench_readings 2000 0, 10)] power_on)) = 1000 \<and>
   Send broadcastAddress (zero_SensorData\<lparr>tensao := \<lparr>voltage_base = 0, voltage_rocket = 66 / 10\<rparr>\<rparr>)
     \<in> set (radio (state_of (transmitData
          \<lparr>peer_exist = True, add_peer_result = ESP_OK, send_result = ESP_OK,
           init_result = ESP_OK, readd_peer_result = ESP_OK\<rparr> 1001
          (samples [(bench_readings 4095 0, 1001)]
            (updateSensorData (bench_readings 4095 0) 1000
              (samples [(bench_readings 2000 0, 10)] power_on))))))"
proof -
  have volt: "tensaoReal (bench_readings 4095 0) = 66 / 10"
    by (simp add: tensaoReal_def bench_readings_def VREF_def ADC_MULTIPLIER_def)
  have before: "\<forall>c \<in> set [(bench_readings 2000 0, 10 :: u32)]. snd c < SENSOR_READ_INTERVAL"
    and gate: "SENSOR_READ_INTERVAL \<le> (1000 :: u32)"
    and after: "\<forall>c \<in> set [(bench_readings 4095 0, 1001 :: u32)]. snd c - 1000 < SENSOR_READ_INTERVAL"
    and send: "TRANSMISSION_INTERVAL \<le> (1001 :: u32)"
    by (simp_all add: SENSOR_READ_INTERVAL_def TRANSMISSION_INTERVAL_def)
  have peer: "peer_exist \<lparr>peer_exist = True, add_peer_result = ESP_OK, send_result = ESP_OK,
      init_result = ESP_OK, readd_peer_result = ESP_OK\<rparr> \<or>
    add_peer_result \<lparr>peer_exist = True, add_peer_result = ESP_OK, send_result = ESP_OK,
      init_result = ESP_OK, readd_peer_result = ESP_OK\<rparr> = ESP_OK"
    by simp
  show ?thesis
    using warm_up_record_is_zero [OF before gate after send peer, of "bench_readings 4095 0"]
    by (simp add: volt)
qed

subsection \<open>Peer registration and send failures\<close>

text \<open>
  After a reset the firmware sends nothing before \<^verbatim>\<open>setup\<close> has returned, and
  \<^verbatim>\<open>setup\<close> returns only after the send callback is registered and the peer added.
\<close>

lemma setup_foguete_registers:
  assumes "setup_foguete init1 init2 add_res mpu_begin begin_76 begin_77 = Some (Running s)"
  shows "radio s =
     [WiFiModeSta, EspNowInit, WiFiModeSta, EspNowInit, RegisterSendCb,
      AddPeer broadcastAddress CHANNEL False]"
  using assms
  by (auto simp add: setup_foguete_def setupEspNow_def setupSensors_def Let_def power_on_def
      split: if_splits)

text \<open>
  C9. A transmission that passes its gate asks whether the broadcast peer is known and
  adds it when it is not. When adding fails, the call prints the failure and returns: no
  send, no second attempt. Otherwise the record is sent, and the result decides: a
  not-initialised failure runs \<^verbatim>\<open>setupEspNow\<close>, which initialises ESP-NOW again and then
  registers the send callback and adds the peer (or, when the initialisation fails,
  resets the chip, so that \<^verbatim>\<open>setup\<close> does the same before anything is sent again); an
  invalid argument, a lack of memory and any other code are printed and nothing else
  happens.
\<close>

theorem transmit_peer_and_failures:
  assumes "TRANSMISSION_INTERVAL \<le> currentTime - lastTransmissionTime s"
  shows "(\<not> peer_exist e \<and> add_peer_result e \<noteq> ESP_OK \<longrightarrow>
       transmitData e currentTime s =
         Running (s\<lparr>lastTransmissionTime := currentTime,
           radio := radio s @ [IsPeerExist broadcastAddress, AddPeer broadcastAddress CHANNEL False],
           serial := serial s @ [PeerAddFailedForTransmission]\<rparr>)) \<and>
    (peer_exist e \<or> add_peer_result e = ESP_OK \<longrightarrow>
       (send_result e = ESP_OK \<longrightarrow>
          transmitData e currentTime s =
            Running (s\<lparr>lastTransmissionTime := currentTime, radio := radio_until_send e s,
              serial := serial s @ [SentOk]\<rparr>)) \<and>
       (send_result e = ESP_ERR_ESPNOW_NOT_INIT \<and> init_result e = ESP_OK \<longrightarrow>
          transmitData e currentTime s =
            Running (s\<lparr>lastTransmissionTime := currentTime,
              radio := radio_until_send e s @
                [WiFiModeSta, EspNowInit, RegisterSendCb, AddPeer broadcastAddress CHANNEL False],
              serial := serial s @ [EspNowNotInitialised] @
                (if readd_peer_result e = ESP_OK then [] else [PeerAddFailed])\<rparr>)) \<and>
       (send_result e = ESP_ERR_ESPNOW_NOT_INIT \<and> init_result e \<noteq> ESP_OK \<longrightarrow>
          transmitData e currentTime s =
            Rebooting (s\<lparr>lastTransmissionTime := currentTime,
              radio := radio_until_send e s @ [WiFiModeSta, EspNowInit],
              serial := serial s @ [EspNowNotInitialised, EspNowInitFailed]\<rparr>)) \<and>
       (send_result e = ESP_ERR_ESPNOW_ARG \<longrightarrow>
          transmitData e currentTime s =
            Running (s\<lparr>lastTransmissionTime := currentTime, radio := radio_until_send e s,
              serial := serial s @ [InvalidArgument]\<rparr>)) \<and>
       (send_result e = ESP_ERR_ESPNOW_NO_MEM \<longrightarrow>
          transmitData e currentTime s =
            Running (s\<lparr>lastTransmissionTime := currentTime, radio := radio_until_send e s,
              serial := serial s @ [OutOfMemory]\<rparr>)) \<and>
       (\<forall>code. send_result e = ESP_ERR_other code \<longrightarrow>
          transmitData e currentTime s =
            Running (s\<lparr>lastTransmissionTime := currentTime, radio := radio_until_send e s,
              serial := serial s @ [UnknownError code]\<rparr>))) \<and>
    (\<forall>init1 init2 add_res mpu_begin begin_76 begin_77 s'.
       setup_foguete init1 init2 add_res mpu_begin begin_76 begin_77 = Some (Running s') \<longrightarrow>
       radio s' =
         [WiFiModeSta, EspNowInit, WiFiModeSta, EspNowInit, RegisterSendCb,
          AddPeer broadcastAddress CHANNEL False])"
proof -
  from assms have gate: "\<not> currentTime - lastTransmissionTime s < TRANSMISSION_INTERVAL"
    by (simp add: not_less)
  have refused: "\<not> peer_exist e \<and> add_peer_result e \<noteq> ESP_OK \<longrightarrow>
       transmitData e currentTime s =
         Running (s\<lparr>lastTransmissionTime := currentTime,
           radio := radio s @ [IsPeerExist broadcastAddress, AddPeer broadcastAddress CHANNEL False],
           serial := serial s @ [PeerAddFailedForTransmission]\<rparr>)"
    using gate by (simp add: transmitData_def Let_def)
  have sent: "peer_exist e \<or> add_peer_result e = ESP_OK \<Longrightarrow>
       transmitData e currentTime s =
         handleCommunicationErrors e (send_result e)
           (s\<lparr>lastTransmissionTime := currentTime, radio := radio_until_send e s\<rparr>)"
    using gate by (auto simp add: transmitData_def radio_until_send_def Let_def)
  have handled: "peer_exist e \<or> add_peer_result e = ESP_OK \<longrightarrow>
       (send_result e = ESP_OK \<longrightarrow>
          transmitData e currentTime s =
            Running (s\<lparr>lastTransmissionTime := currentTime, radio := radio_until_send e s,
              serial := serial s @ [SentOk]\<rparr>)) \<and>
       (send_result e = ESP_ERR_ESPNOW_NOT_INIT \<and> init_result e = ESP_OK \<longrightarrow>
          transmitData e currentTime s =
            Running (s\<lparr>lastTransmissionTime := currentTime,
              radio := radio_until_send e s @
                [WiFiModeSta, EspNowInit, RegisterSendCb, AddPeer broadcastAddress CHANNEL False],
              serial := serial s @ [EspNowNotInitialised] @
                (if readd_peer_result e = ESP_OK then [] else [PeerAddFailed])\<rparr>)) \<and>
       (send_result e = ESP_ERR_ESPNOW_NOT_INIT \<and> init_result e \<noteq> ESP_OK \<longrightarrow>
          transmitData e currentTime s =
            Rebooting (s\<lparr>lastTransmissionTime := currentTime,
              radio := radio_until_send e s @ [WiFiModeSta, EspNowInit],
              serial := serial s @ [EspNowNotInitialised, EspNowInitFailed]\<rparr>)) \<and>
       (send_result e = ESP_ERR_ESPNOW_ARG \<longrightarrow>
          transmitData e currentTime s =
            Running (s\<lparr>lastTransmissionTime := currentTime, radio := radio_until_send e s,
              serial := serial s @ [InvalidArgument]\<rparr>)) \<and>
       (send_result e = ESP_ERR_ESPNOW_NO_MEM \<longrightarrow>
          transmitData e currentTime s =
            Running (s\<lparr>lastTransmissionTime := currentTime, radio := radio_until_send e s,
              serial := serial s @ [OutOfMemory]\<rparr>)) \<and>
       (\<forall>code. send_result e = ESP_ERR_other code \<longrightarrow>
          transmitData e currentTime s =
            Running (s\<lparr>lastTransmissionTime := currentTime, radio := radio_until_send e s,
              serial := serial s @ [UnknownError code]\<rparr>))"
    by (auto simp add: sent handleCommunicationErrors_def setupEspNow_def Let_def)
  have boot: "\<forall>init1 init2 add_res mpu_begin begin_76 begin_77 s'.
       setup_foguete init1 init2 add_res mpu_begin begin_76 begin_77 = Some (Running s') \<longrightarrow>
       radio s' =
         [WiFiModeSta, EspNowInit, WiFiModeSta, EspNowInit, RegisterSendCb,
          AddPeer broadcastAddress CHANNEL False]"
    using setup_foguete_registers by blast
  show ?thesis
    by (rule conjI [OF refused conjI [OF handled boot]])
qed

theorem transmit_peer_and_failures_witness:
  "TRANSMISSION_INTERVAL \<le> (500 :: u32) - lastTransmissionTime power_on \<and>
   transmitData
     \<lparr>peer_exist = False, add_peer_result = ESP_ERR_ESPNOW_NO_MEM, send_result = ESP_OK,
      init_result = ESP_OK, readd_peer_result = ESP_OK\<rparr> 500 power_on =
     Running (power_on\<lparr>lastTransmissionTime := 500,
       radio := [IsPeerExist broadcastAddress, AddPeer broadcastAddress CHANNEL False],
       serial := [PeerAddFailedForTransmission]\<rparr>) \<and>
   transmitData
     \<lparr>peer_exist = False, add_peer_result = ESP_OK, send_result = ESP_ERR_ESPNOW_NOT_INIT,
      init_result = ESP_OK, readd_peer_result = ESP_OK\<rparr> 500 power_on =
     Running (power_on\<lparr>lastTransmissionTime := 500,
       radio := [IsPeerExist broadcastAddress, AddPeer broadcastAddress CHANNEL False,
                 Send broadcastAddress zero_SensorData,
                 WiFiModeSta, EspNowInit, RegisterSendCb, AddPeer broadcastAddress CHANNEL False],
       serial := [EspNowNotInitialised]\<rparr>) \<and>
   transmitData
     \<lparr>peer_exist = True, add_peer_result = ESP_OK, send_result = ESP_ERR_ESPNOW_NOT_INIT,
      init_result = ESP_ERR_ESPNOW_NO_MEM, readd_peer_result = ESP_OK\<rparr> 500 power_on =
     Rebooting (power_on\<lparr>lastTransmissionTime := 500,
       radio := [IsPeerExist broadcastAddress, Send broadcastAddress zero_SensorData,
                 WiFiModeSta, EspNowInit],
       serial := [EspNowNotInitialised, EspNowInitFailed]\<rparr>) \<and>
   transmitData
     \<lparr>peer_exist = True, add_peer_result = ESP_OK, send_result = ESP_OK,
      init_result = ESP_OK, readd_peer_result = ESP_OK\<rparr> 500 power_on =
     Running (power_on\<lparr>lastTransmissionTime := 500,
       radio := [IsPeerExist broadcastAddress, Send broadcastAddress zero_SensorData],
       serial := [SentOk]\<rparr>) \<and>
   transmitData
     \<lparr>peer_exist = True, add_peer_result = ESP_OK, send_result = ESP_ERR_ESPNOW_ARG,
      init_result = ESP_OK, readd_peer_result = ESP_OK\<rparr> 500 power_on =
     Running (power_on\<lparr>lastTransmissionTime := 500,
       radio := [IsPeerExist broadcastAddress, Send broadcastAddress zero_SensorData],
       serial := [InvalidArgument]\<rparr>) \<and>
   transmitData
     \<lparr>peer_exist = True, add_peer_result = ESP_OK, send_result = ESP_ERR_ESPNOW_NO_MEM,
      init_result = ESP_OK, readd_peer_result = ESP_OK\<rparr> 500 power_on =
     Running (power_on\<lparr>lastTransmissionTime := 500,
       radio := [IsPeerExist broadcastAddress, Send broadcastAddress zero_SensorData],
       serial := [OutOfMemory]\<rparr>) \<and>
   transmitData
     \<lparr>peer_exist = True, add_peer_result = ESP_OK, send_result = ESP_ERR_other 42,
      init_result = ESP_OK, readd_peer_result = ESP_OK\<rparr> 500 power_on =
     Running (power_on\<lparr>lastTransmissionTime := 500,
       radio := [IsPeerExist broadcastAddress, Send broadcastAddress zero_SensorData],
       serial := [UnknownError 42]\<rparr>) \<and>
   setup_foguete ESP_OK ESP_OK ESP_OK True False True =
     Some (Running (power_on\<lparr>
       radio := [WiFiModeSta, EspNowInit, WiFiModeSta, EspNowInit, RegisterSendCb,
                 AddPeer broadcastAddress CHANNEL False],
       serial := [MacAddress, SystemInitialised]\<rparr>))"
proof -
  have gate: "TRANSMISSION_INTERVAL \<le> (500 :: u32) - lastTransmissionTime power_on"
    by (simp add: power_on_def TRANSMISSION_INTERVAL_def)
  have fields: "radio power_on = []" "serial power_on = []" "sensorData power_on = zero_SensorData"
    by (simp_all add: power_on_def)
  have boot: "setup_foguete ESP_OK ESP_OK ESP_OK True False True =
     Some (Running (power_on\<lparr>
       radio := [WiFiModeSta, EspNowInit, WiFiModeSta, EspNowInit, RegisterSendCb,
                 AddPeer broadcastAddress CHANNEL False],
       serial := [MacAddress, SystemInitialised]\<rparr>))"
    by (simp add: setup_foguete_def setupEspNow_def setupSensors_def initBMP280_def Let_def
        power_on_def)
  show ?thesis
    using gate boot
      transmit_peer_and_failures [OF gate,
        of "\<lparr>peer_exist = False, add_peer_result = ESP_ERR_ESPNOW_NO_MEM, send_result = ESP_OK,
             init_result = ESP_OK, readd_peer_result = ESP_OK\<rparr>"]
      transmit_peer_and_failures [OF gate,
        of "\<lparr>peer_exist = False, add_peer_result = ESP_OK, send_result = ESP_ERR_ESPNOW_NOT_INIT,
             init_result = ESP_OK, readd_peer_result = ESP_OK\<rparr>"]
      transmit_peer_and_failures [OF gate,
        of "\<lparr>peer_exist = True, add_peer_result = ESP_OK, send_result = ESP_ERR_ESPNOW_NOT_INIT,
             init_result = ESP_ERR_ESPNOW_NO_MEM, readd_peer_result = ESP_OK\<rparr>"]
      transmit_peer_and_failures [OF gate,
        of "\<lparr>peer_exist = True, add_peer_result = ESP_OK, send_result = ESP_OK,
             init_result = ESP_OK, readd_peer_result = ESP_OK\<rparr>"]
      transmit_peer_and_failures [OF gate,
        of "\<lparr>peer_exist = True, add_peer_result = ESP_OK, send_result = ESP_ERR_ESPNOW_ARG,
             init_result = ESP_OK, readd_peer_result = ESP_OK\<rparr>"]
      transmit_peer_and_failures [OF gate,
        of "\<lparr>peer_exist = True, add_peer_result = ESP_OK, send_result = ESP_ERR_ESPNOW_NO_MEM,
             init_result = ESP_OK, readd_peer_result = ESP_OK\<rparr>"]
      transmit_peer_and_failures [OF gate,
        of "\<lparr>peer_exist = True, add_peer_result = ESP_OK, send_result = ESP_ERR_other 42,
             init_result = ESP_OK, readd_peer_result = ESP_OK\<rparr>"]
    by (simp add: radio_until_send_def fields)
qed

end
